theory Spec2Isabelle
  imports Main
begin

section \<open>Python values, exceptions and the environment\<close>

text \<open>
  A Python \<open>str\<close> is a sequence of Unicode code points, and \<open>len\<close> and slicing count
  code points: a string is a list of code points. ASCII literals of the source are written
  with \<open>u\<close>, other literals as their code points.
\<close>

type_synonym ustr = "nat list"

definition u :: "string \<Rightarrow> ustr" where
  "u s = map of_char s"

text \<open>
  The values the program handles dynamically: what \<open>response.json()\<close> returns, the
  request bodies it builds, and the report dictionary of \<open>process\<close>. A dictionary is an
  association list in insertion order, read by its first entry for a key. A float is kept
  as its literal. \<open>PObject\<close> is an instance of a class, with the class name and the
  attributes.
\<close>

datatype pyval =
    PNone
  | PBool bool
  | PInt int
  | PFloat ustr
  | PStr ustr
  | PList "pyval list"
  | PTuple "pyval list"
  | PDict "(ustr \<times> pyval) list"
  | PObject ustr "(ustr \<times> pyval) list"

text \<open>
  Exceptions. \<open>RequestException\<close> is \<open>requests.RequestException\<close> and its subclasses,
  \<open>OtherError\<close> any other \<open>Exception\<close> a library call raises; both carry the library's
  message. The other four are raised by the interpreter on a subscript, a membership test or
  an attribute access.
\<close>

datatype exn =
    RequestException ustr
  | OtherError ustr
  | KeyError pyval
  | TypeError
  | IndexError
  | AttributeError

fun is_RequestException :: "exn \<Rightarrow> bool" where
  "is_RequestException (RequestException m) = True"
| "is_RequestException e = False"

datatype http_method = GET | POST

record http_request =
  req_method :: http_method
  req_url :: ustr
  req_headers :: "(ustr \<times> ustr) list"
  req_json :: "pyval option"
  req_timeout :: int

text \<open>\<open>resp_json\<close> is what \<open>response.json()\<close> does: the parsed body, or the exception.\<close>

record http_response =
  resp_status_code :: int
  resp_text :: ustr
  resp_json :: "exn + pyval"

definition resp_ok :: "http_response \<Rightarrow> bool" where
  "resp_ok r = (\<not> (400 \<le> resp_status_code r \<and> resp_status_code r < 600))"

text \<open>
  A parsed HTML document, as BeautifulSoup holds it: text strings, strings that
  \<open>get_text\<close> skips (comments and the like), and elements with a tag name, the list of
  their classes (\<open>None\<close> without a \<open>class\<close> attribute) and their children.
\<close>

datatype node =
    Text ustr
  | Comment ustr
  | Elem ustr "ustr list option" "node list"

text \<open>
  What the program takes from outside: the network, the process environment, the
  interpreter's Unicode tables and formatting, the iteration order of a \<open>set\<close>, and the
  third-party libraries (jieba when it is installed, the HTML parser, the regular-expression
  engine's case-insensitive search).
\<close>

record world =
  send_request :: "http_request \<Rightarrow> exn + http_response"
  getenv :: "ustr \<Rightarrow> ustr option"
  exc_str :: "exn \<Rightarrow> ustr"
  py_repr :: "pyval \<Rightarrow> ustr"
  str_lower :: "ustr \<Rightarrow> ustr"
  is_decimal :: "nat \<Rightarrow> bool"
  jieba_cut :: "(ustr \<Rightarrow> ustr list) option"
  set_iter :: "ustr list \<Rightarrow> ustr list"
  html_parse :: "ustr \<Rightarrow> node list"
  re_search_i :: "ustr \<Rightarrow> ustr \<Rightarrow> bool"

text \<open>What the program does to the outside, in order.\<close>

datatype event =
    Http http_request
  | Call_summarize ustr
  | Call_send ustr

text \<open>\<open>a or b\<close> on optional strings: \<open>None\<close> and the empty string are falsy.\<close>

fun truthy :: "ustr option \<Rightarrow> bool" where
  "truthy None = False"
| "truthy (Some s) = (s \<noteq> [])"

definition py_or :: "ustr option \<Rightarrow> ustr option \<Rightarrow> ustr option" where
  "py_or a b = (if truthy a then a else b)"

text \<open>A value inside an f-string: a string as it is, the rest by \<open>str\<close>.\<close>

fun py_format :: "world \<Rightarrow> pyval \<Rightarrow> ustr" where
  "py_format w (PStr s) = s"
| "py_format w PNone = u ''None''"
| "py_format w (PBool True) = u ''True''"
| "py_format w (PBool False) = u ''False''"
| "py_format w v = py_repr w v"

text \<open>\<open>isinstance(v, cls)\<close> for a class of the program.\<close>

fun is_instance :: "ustr \<Rightarrow> pyval \<Rightarrow> bool" where
  "is_instance cls (PObject c attrs) = (c = cls)"
| "is_instance cls v = False"

fun is_str :: "pyval \<Rightarrow> bool" where
  "is_str (PStr s) = True"
| "is_str v = False"

fun format_opt :: "ustr option \<Rightarrow> ustr" where
  "format_opt None = u ''None''"
| "format_opt (Some s) = s"

section \<open>crawler.py\<close>

record CrawlResult =
  cr_url :: ustr
  cr_html :: ustr
  cr_status_code :: int
  cr_success :: bool
  cr_error_message :: "ustr option"

record NewsCrawler =
  nc_timeout :: int
  nc_headers :: "(ustr \<times> ustr) list"

definition DEFAULT_HEADERS :: "(ustr \<times> ustr) list" where
  "DEFAULT_HEADERS =
    [(u ''User-Agent'', u ''Mozilla/5.0 (Windows NT 10.0; Win64; x64) AppleWebKit/537.36 (KHTML, like Gecko) Chrome/120.0.0.0 Safari/537.36''),
     (u ''Accept'', u ''text/html,application/xhtml+xml,application/xml;q=0.9,image/webp,*/*;q=0.8''),
     (u ''Accept-Language'', u ''zh-TW,zh;q=0.9,en-US;q=0.8,en;q=0.7'')]"

definition new_NewsCrawler :: "int \<Rightarrow> (ustr \<times> ustr) list option \<Rightarrow> NewsCrawler" where
  "new_NewsCrawler timeout headers =
    \<lparr>nc_timeout = timeout,
     nc_headers = (case headers of None \<Rightarrow> DEFAULT_HEADERS
                   | Some h \<Rightarrow> if h = [] then DEFAULT_HEADERS else h)\<rparr>"

text \<open>
  \<open>fetch\<close>: the \<open>try\<close> catches \<open>requests.RequestException\<close> only, so any other
  exception of \<open>session.get\<close> leaves \<open>fetch\<close>.
\<close>

definition get_request :: "NewsCrawler \<Rightarrow> ustr \<Rightarrow> http_request" where
  "get_request c url =
    \<lparr>req_method = GET, req_url = url, req_headers = nc_headers c,
     req_json = None, req_timeout = nc_timeout c\<rparr>"

definition fetch :: "world \<Rightarrow> NewsCrawler \<Rightarrow> ustr \<Rightarrow> (exn + CrawlResult) \<times> event list" where
  "fetch w c url =
    (let req = get_request c url
     in (case send_request w req of
           Inr response \<Rightarrow>
             Inr \<lparr>cr_url = url, cr_html = resp_text response,
                  cr_status_code = resp_status_code response,
                  cr_success = (resp_status_code response = 200),
                  cr_error_message = None\<rparr>
         | Inl e \<Rightarrow>
             if is_RequestException e
             then Inr \<lparr>cr_url = url, cr_html = [], cr_status_code = 0,
                       cr_success = False, cr_error_message = Some (exc_str w e)\<rparr>
             else Inl e,
         [Http req]))"

section \<open>filter.py\<close>

text \<open>
  The whitespace of \<open>str.strip()\<close> and of \<open>\s\<close> in a \<open>str\<close> pattern (the code points
  for which \<open>str.isspace\<close> holds).
\<close>

definition is_space :: "nat \<Rightarrow> bool" where
  "is_space c =
    ((9 \<le> c \<and> c \<le> 13) \<or> (28 \<le> c \<and> c \<le> 32) \<or> c = 133 \<or> c = 160 \<or> c = 5760 \<or>
     (8192 \<le> c \<and> c \<le> 8202) \<or> c = 8232 \<or> c = 8233 \<or> c = 8239 \<or> c = 8287 \<or> c = 12288)"

definition strip :: "ustr \<Rightarrow> ustr" where
  "strip s = rev (dropWhile is_space (rev (dropWhile is_space s)))"

fun join :: "ustr \<Rightarrow> ustr list \<Rightarrow> ustr" where
  "join sep [] = []"
| "join sep [x] = x"
| "join sep (x # y # ys) = x @ sep @ join sep (y # ys)"

record FilteredContent =
  fc_title :: ustr
  fc_body :: ustr
  fc_paragraphs :: "ustr list"
  fc_word_count :: nat

record TextFilter =
  min_paragraph_length :: int

definition REMOVE_TAGS :: "ustr list" where
  "REMOVE_TAGS =
    [u ''script'', u ''style'', u ''nav'', u ''header'', u ''footer'',
     u ''aside'', u ''advertisement'', u ''iframe'', u ''noscript'']"

definition NOISE_CLASSES :: "ustr list" where
  "NOISE_CLASSES =
    [u ''ad'', u ''ads'', u ''advertisement'', u ''sidebar'', u ''menu'',
     u ''navigation'', u ''footer'', u ''header'', u ''social'', u ''share'']"

text \<open>An element test reads the tag name and the classes of the element itself.\<close>

fun matches :: "(ustr \<Rightarrow> ustr list option \<Rightarrow> bool) \<Rightarrow> node \<Rightarrow> bool" where
  "matches P (Elem t c ch) = P t c"
| "matches P n = False"

text \<open>\<open>find_all\<close>: the matching elements below a node, the node included, in document order.\<close>

fun find_all :: "(ustr \<Rightarrow> ustr list option \<Rightarrow> bool) \<Rightarrow> node \<Rightarrow> node list" where
  "find_all P (Elem t c ch) =
     (if P t c then [Elem t c ch] else []) @ concat (map (find_all P) ch)"
| "find_all P n = []"

definition soup_find_all :: "(ustr \<Rightarrow> ustr list option \<Rightarrow> bool) \<Rightarrow> node list \<Rightarrow> node list" where
  "soup_find_all P soup = concat (map (find_all P) soup)"

definition soup_find :: "(ustr \<Rightarrow> ustr list option \<Rightarrow> bool) \<Rightarrow> node list \<Rightarrow> node option" where
  "soup_find P soup = (case soup_find_all P soup of [] \<Rightarrow> None | n # ns \<Rightarrow> Some n)"

text \<open>
  \<open>for element in soup.find_all(...): element.decompose()\<close>: every matching element
  leaves the tree with all that is below it.
\<close>

fun decompose_all :: "(ustr \<Rightarrow> ustr list option \<Rightarrow> bool) \<Rightarrow> node \<Rightarrow> node" where
  "decompose_all P (Elem t c ch) =
     Elem t c (filter (\<lambda>n. \<not> matches P n) (map (decompose_all P) ch))"
| "decompose_all P n = n"

definition soup_decompose :: "(ustr \<Rightarrow> ustr list option \<Rightarrow> bool) \<Rightarrow> node list \<Rightarrow> node list" where
  "soup_decompose P soup = filter (\<lambda>n. \<not> matches P n) (map (decompose_all P) soup)"

text \<open>
  \<open>class_=re.compile(class_name, re.I)\<close>: an element matches when the pattern is found
  in one of its classes, or in the classes joined by a space.
\<close>

definition class_matches :: "world \<Rightarrow> ustr \<Rightarrow> ustr \<Rightarrow> ustr list option \<Rightarrow> bool" where
  "class_matches w class_name t cls =
    (case cls of
       None \<Rightarrow> False
     | Some cs \<Rightarrow> list_ex (re_search_i w class_name) cs \<or> re_search_i w class_name (join [32] cs))"

text \<open>\<open>get_text(strip=True)\<close>: the text strings below the node, each stripped, the empty
  ones left out, concatenated.\<close>

fun all_strings :: "node \<Rightarrow> ustr list" where
  "all_strings (Text s) = [s]"
| "all_strings (Comment s) = []"
| "all_strings (Elem t c ch) = concat (map all_strings ch)"

definition get_text_strip :: "node \<Rightarrow> ustr" where
  "get_text_strip n = concat (filter (\<lambda>s. s \<noteq> []) (map strip (all_strings n)))"

definition extract_content :: "world \<Rightarrow> TextFilter \<Rightarrow> ustr \<Rightarrow> FilteredContent" where
  "extract_content w f html =
    (let soup0 = html_parse w html;
         soup1 = fold (\<lambda>tag soup. soup_decompose (\<lambda>t c. t = tag) soup) REMOVE_TAGS soup0;
         soup = fold (\<lambda>class_name soup. soup_decompose (class_matches w class_name) soup)
                  NOISE_CLASSES soup1;
         title_tag = (case soup_find (\<lambda>t c. t = u ''h1'') soup of
                        Some n \<Rightarrow> Some n
                      | None \<Rightarrow> soup_find (\<lambda>t c. t = u ''title'') soup);
         title = (case title_tag of Some n \<Rightarrow> get_text_strip n | None \<Rightarrow> []);
         paragraphs =
           filter (\<lambda>text. min_paragraph_length f \<le> int (length text))
             (map get_text_strip
                (soup_find_all (\<lambda>t c. t = u ''p'' \<or> t = u ''article'') soup));
         body = join [10, 10] paragraphs
     in \<lparr>fc_title = title, fc_body = body, fc_paragraphs = paragraphs,
         fc_word_count = length body\<rparr>)"

section \<open>analyzer.py\<close>

record AnalysisResult =
  ar_keywords :: "(ustr \<times> nat) list"
  total_words :: nat
  unique_words :: nat
  top_entities :: "ustr list"

record KeywordAnalyzer =
  top_n :: int
  min_word_length :: int

definition STOP_WORDS :: "ustr set" where
  "STOP_WORDS = set
    [[30340], [20102], [26159], [22312], [25105], [26377], [21644], [23601], [19981], [20154], [37117], [19968], [19968, 20491],
     [19978], [20063], [24456], [21040], [35498], [35201], [21435], [20320], [26371], [33879], [27794, 26377], [30475], [22909],
     [36889], [37027], [23565], [33021], [22905], [20182], [23427], [20497], [28858], [33287], [31561], [34987], [35731],
     [12398], [12395], [12399], [12434], [12383], [12364], [12391], [12390], [12392], [12375], [12428], [12373], [12354, 12427],
     [12356, 12427], [12418], [12377, 12427], [12363, 12425], [12394], [12371, 12392], [12392, 12375, 12390], [12356], [12420], [12394, 12393],
     u ''the'', u ''a'', u ''an'', u ''is'', u ''are'', u ''was'', u ''were'', u ''be'', u ''been'', u ''being'',
     u ''have'', u ''has'', u ''had'', u ''do'', u ''does'', u ''did'', u ''will'', u ''would'', u ''could'',
     u ''should'', u ''may'', u ''might'', u ''must'', u ''shall'', u ''can'', u ''need'', u ''dare'',
     u ''to'', u ''of'', u ''in'', u ''for'', u ''on'', u ''with'', u ''at'', u ''by'', u ''from'', u ''as'',
     u ''into'', u ''through'', u ''during'', u ''before'', u ''after'', u ''above'', u ''below'',
     u ''and'', u ''but'', u ''or'', u ''nor'', u ''so'', u ''yet'', u ''both'', u ''either'', u ''neither'',
     u ''this'', u ''that'', u ''these'', u ''those'', u ''i'', u ''you'', u ''he'', u ''she'', u ''it'', u ''we'', u ''they'']"

text \<open>
  \<open>re.findall\<close> for a pattern without capture groups: \<open>m\<close> gives the length of the match
  that starts where the text starts, if there is one; the scan moves past a match, and one
  code point on where there is none. The counter holds how many code points of the last
  match are still to be passed.
\<close>

fun findall_from :: "(ustr \<Rightarrow> nat option) \<Rightarrow> nat \<Rightarrow> ustr \<Rightarrow> ustr list" where
  "findall_from m k [] = []"
| "findall_from m (Suc k) (c # cs) = findall_from m k cs"
| "findall_from m 0 (c # cs) =
     (case m (c # cs) of
        Some n \<Rightarrow> take n (c # cs) # findall_from m (n - 1) cs
      | None \<Rightarrow> findall_from m 0 cs)"

definition findall :: "(ustr \<Rightarrow> nat option) \<Rightarrow> ustr \<Rightarrow> ustr list" where
  "findall m text = findall_from m 0 text"

definition is_cjk :: "nat \<Rightarrow> bool" where
  "is_cjk c = (19968 \<le> c \<and> c \<le> 40959)"

definition is_upper :: "nat \<Rightarrow> bool" where
  "is_upper c = (65 \<le> c \<and> c \<le> 90)"

definition is_lower :: "nat \<Rightarrow> bool" where
  "is_lower c = (97 \<le> c \<and> c \<le> 122)"

text \<open>The fallback tokenizer's pattern: a run of ideographs, or of ASCII letters, or of
  decimal digits, each as long as it goes.\<close>

definition word_match :: "world \<Rightarrow> ustr \<Rightarrow> nat option" where
  "word_match w s =
    (let a = length (takeWhile is_cjk s);
         b = length (takeWhile (\<lambda>c. is_lower c \<or> is_upper c) s);
         d = length (takeWhile (is_decimal w) s)
     in if 0 < a then Some a else if 0 < b then Some b else if 0 < d then Some d else None)"

definition tokenize :: "world \<Rightarrow> KeywordAnalyzer \<Rightarrow> ustr \<Rightarrow> ustr list" where
  "tokenize w a text =
    (let words = (case jieba_cut w of
                    Some jieba \<Rightarrow> jieba text
                  | None \<Rightarrow> findall (word_match w) text)
     in map (str_lower w)
          (filter (\<lambda>x. min_word_length a \<le> int (length x) \<and> str_lower w x \<notin> STOP_WORDS)
             words))"

text \<open>\<open>Counter(words)\<close>: the counts, in the order in which the words first occur.\<close>

fun counter_add :: "ustr \<Rightarrow> (ustr \<times> nat) list \<Rightarrow> (ustr \<times> nat) list" where
  "counter_add x [] = [(x, 1)]"
| "counter_add x ((k, n) # kvs) =
     (if k = x then (k, Suc n) # kvs else (k, n) # counter_add x kvs)"

definition Counter :: "ustr list \<Rightarrow> (ustr \<times> nat) list" where
  "Counter words = fold counter_add words []"

text \<open>
  \<open>most_common(n)\<close> is \<open>heapq.nlargest(n, items, key=count)\<close>, that is
  \<open>sorted(items, key=count, reverse=True)[:n]\<close>: a stable sort, and nothing for
  \<open>n \<le> 0\<close>.
\<close>

definition most_common :: "(ustr \<times> nat) list \<Rightarrow> int \<Rightarrow> (ustr \<times> nat) list" where
  "most_common items n = take (nat n) (sort_key (\<lambda>kv. - int (snd kv)) items)"

text \<open>The entity patterns. A capitalised word \<open>[A-Z][a-z]+\<close> at the start of the text:\<close>

definition cap_word :: "ustr \<Rightarrow> nat option" where
  "cap_word s =
    (case s of
       [] \<Rightarrow> None
     | c # cs \<Rightarrow>
         if is_upper c \<and> takeWhile is_lower cs \<noteq> []
         then Some (Suc (length (takeWhile is_lower cs))) else None)"

text \<open>One round of the group \<open>(?:\s+[A-Z][a-z]+)\<close>:\<close>

definition name_part :: "ustr \<Rightarrow> nat option" where
  "name_part s =
    (let k = length (takeWhile is_space s)
     in if k = 0 then None
        else (case cap_word (drop k s) of None \<Rightarrow> None | Some n \<Rightarrow> Some (k + n)))"

lemma name_part_pos: "name_part s = Some n \<Longrightarrow> 0 < n \<and> n \<le> length s"
proof -
  assume a: "name_part s = Some n"
  let ?k = "length (takeWhile is_space s)"
  from a have k: "?k \<noteq> 0"
    by (auto simp: name_part_def Let_def split: if_splits)
  from a k obtain j where j: "cap_word (drop ?k s) = Some j" and n: "n = ?k + j"
    by (auto simp: name_part_def Let_def split: if_splits option.splits)
  have "j \<le> length (drop ?k s)"
  proof (cases "drop ?k s")
    case Nil
    with j show ?thesis by (simp add: cap_word_def)
  next
    case (Cons c cs)
    with j have "j = Suc (length (takeWhile is_lower cs))"
      by (auto simp: cap_word_def split: if_splits)
    moreover have "length (takeWhile is_lower cs) \<le> length cs"
      by (rule length_takeWhile_le)
    ultimately show ?thesis using Cons by simp
  qed
  moreover have "?k \<le> length s" by (rule length_takeWhile_le)
  ultimately show ?thesis using k n by auto
qed

text \<open>The greedy repetition of the group: the code points its rounds take together.\<close>

function name_parts :: "ustr \<Rightarrow> nat" where
  "name_parts s =
     (case name_part s of None \<Rightarrow> 0 | Some n \<Rightarrow> n + name_parts (drop n s))"
  by pat_completeness auto
termination
proof (relation "measure length")
  show "wf (measure length)" by simp
next
  fix s :: ustr and n
  assume "name_part s = Some n"
  then have "0 < n \<and> n \<le> length s" by (rule name_part_pos)
  then show "(drop n s, s) \<in> measure length" by auto
qed

text \<open>\<open>[A-Z][a-z]+(?:\s+[A-Z][a-z]+)+\<close>:\<close>

definition name_match :: "ustr \<Rightarrow> nat option" where
  "name_match s =
    (case cap_word s of
       None \<Rightarrow> None
     | Some n \<Rightarrow> (let r = name_parts (drop n s) in if r = 0 then None else Some (n + r)))"

text \<open>
  \<open>[CJK]{lo,hi}(?:alt|...)\<close>, with \<open>[CJK]\<close> the range U+4E00 to U+9FFF: the ideographs are taken greedily and given back
  one at a time until an alternative follows; the alternatives are tried in order.
\<close>

definition first_prefix :: "ustr list \<Rightarrow> ustr \<Rightarrow> nat option" where
  "first_prefix alts s =
    (case filter (\<lambda>p. take (length p) s = p) alts of [] \<Rightarrow> None | p # ps \<Rightarrow> Some (length p))"

fun try_counts :: "ustr list \<Rightarrow> ustr \<Rightarrow> nat list \<Rightarrow> nat option" where
  "try_counts alts s [] = None"
| "try_counts alts s (k # ks) =
     (case first_prefix alts (drop k s) of
        Some m \<Rightarrow> Some (k + m)
      | None \<Rightarrow> try_counts alts s ks)"

definition cjk_suffix_match :: "nat \<Rightarrow> nat \<Rightarrow> ustr list \<Rightarrow> ustr \<Rightarrow> nat option" where
  "cjk_suffix_match lo hi alts s =
    (let r = length (takeWhile is_cjk (take hi s))
     in try_counts alts s (rev [lo ..< Suc r]))"

definition company_suffixes :: "ustr list" where
  "company_suffixes = [[20844, 21496], [38598, 22296], [37504, 34892], [20225, 26989]]"

definition person_suffixes :: "ustr list" where
  "person_suffixes = [[20808, 29983], [22899, 22763], [32317, 35009], [33891, 20107]]"

definition patterns :: "(ustr \<Rightarrow> nat option) list" where
  "patterns =
    [name_match,
     cjk_suffix_match 2 4 company_suffixes,
     cjk_suffix_match 2 3 person_suffixes]"

text \<open>
  \<open>_extract_entities\<close>: the matches of the three patterns one after the other, then
  \<open>list(set(entities))\<close>, whose order is the set's iteration order.
\<close>

definition pooled_entities :: "ustr \<Rightarrow> ustr list" where
  "pooled_entities text = concat (map (\<lambda>pattern. findall pattern text) patterns)"

definition extract_entities :: "world \<Rightarrow> ustr \<Rightarrow> ustr list" where
  "extract_entities w text = set_iter w (pooled_entities text)"

definition analyze :: "world \<Rightarrow> KeywordAnalyzer \<Rightarrow> ustr \<Rightarrow> AnalysisResult" where
  "analyze w a text =
    (let words = tokenize w a text;
         word_counts = Counter words;
         top_keywords = most_common word_counts (top_n a);
         entities = extract_entities w text
     in \<lparr>ar_keywords = top_keywords, total_words = length words,
         unique_words = length word_counts, top_entities = take 10 entities\<rparr>)"

text \<open>
  The deduplication the spec asks for, to compare with \<open>list(set(entities))\<close>: the first
  occurrence of every element, in the order of the first occurrences.
\<close>

fun spec_stable_dedupe :: "ustr list \<Rightarrow> ustr list" where
  "spec_stable_dedupe [] = []"
| "spec_stable_dedupe (x # xs) = x # spec_stable_dedupe (filter (\<lambda>y. y \<noteq> x) xs)"

section \<open>connector.py\<close>

datatype LLMProvider = OPENAI | GEMINI

datatype MessagingPlatform = DISCORD | TELEGRAM | SLACK | LINE

text \<open>
  The dataclasses annotate \<open>content: str\<close>, \<open>success: bool\<close> and so on, but the
  fields hold whatever the code puts there: values read out of a reply stay dynamic.
\<close>

record LLMResponse =
  llm_content :: pyval
  llm_model :: ustr
  llm_tokens_used :: pyval
  llm_success :: bool
  llm_error_message :: pyval

record MessageResult =
  mr_platform :: ustr
  mr_success :: pyval
  mr_message_id :: "ustr option"
  mr_error_message :: pyval

subsection \<open>The interpreter's operations on dynamic values\<close>

definition exn_bind :: "exn + 'a \<Rightarrow> ('a \<Rightarrow> exn + 'b) \<Rightarrow> exn + 'b" where
  "exn_bind m f = (case m of Inl e \<Rightarrow> Inl e | Inr v \<Rightarrow> f v)"

fun is_substring :: "ustr \<Rightarrow> ustr \<Rightarrow> bool" where
  "is_substring k [] = (k = [])"
| "is_substring k (c # cs) = (take (length k) (c # cs) = k \<or> is_substring k cs)"

text \<open>\<open>key in v\<close> for a string \<open>key\<close>.\<close>

fun py_contains :: "ustr \<Rightarrow> pyval \<Rightarrow> exn + bool" where
  "py_contains k (PDict kvs) = Inr (map_of kvs k \<noteq> None)"
| "py_contains k (PList xs) = Inr (List.member xs (PStr k))"
| "py_contains k (PTuple xs) = Inr (List.member xs (PStr k))"
| "py_contains k (PStr s) = Inr (is_substring k s)"
| "py_contains k v = Inl TypeError"

text \<open>\<open>v[key]\<close> for a string \<open>key\<close>.\<close>

fun py_getitem :: "pyval \<Rightarrow> ustr \<Rightarrow> exn + pyval" where
  "py_getitem (PDict kvs) k =
     (case map_of kvs k of Some v \<Rightarrow> Inr v | None \<Rightarrow> Inl (KeyError (PStr k)))"
| "py_getitem v k = Inl TypeError"

text \<open>\<open>v[0]\<close>.\<close>

fun py_getitem0 :: "pyval \<Rightarrow> exn + pyval" where
  "py_getitem0 (PList xs) = (case xs of [] \<Rightarrow> Inl IndexError | x # rest \<Rightarrow> Inr x)"
| "py_getitem0 (PTuple xs) = (case xs of [] \<Rightarrow> Inl IndexError | x # rest \<Rightarrow> Inr x)"
| "py_getitem0 (PStr s) = (case s of [] \<Rightarrow> Inl IndexError | c # rest \<Rightarrow> Inr (PStr [c]))"
| "py_getitem0 (PDict kvs) = Inl (KeyError (PInt 0))"
| "py_getitem0 v = Inl TypeError"

text \<open>\<open>v.get(key, default)\<close>.\<close>

fun py_get :: "pyval \<Rightarrow> ustr \<Rightarrow> pyval \<Rightarrow> exn + pyval" where
  "py_get (PDict kvs) k d = Inr (case map_of kvs k of Some v \<Rightarrow> v | None \<Rightarrow> d)"
| "py_get v k d = Inl AttributeError"

text \<open>
  \<open>v[:n]\<close>: strings and sequences are sliced; nothing else is (a dictionary raises
  \<open>TypeError\<close> up to Python 3.11 and \<open>KeyError\<close> from 3.12, written \<open>TypeError\<close> here).
\<close>

fun py_slice_to :: "pyval \<Rightarrow> nat \<Rightarrow> exn + pyval" where
  "py_slice_to (PStr s) n = Inr (PStr (take n s))"
| "py_slice_to (PList xs) n = Inr (PList (take n xs))"
| "py_slice_to (PTuple xs) n = Inr (PTuple (take n xs))"
| "py_slice_to v n = Inl TypeError"

subsection \<open>LLM connectors\<close>

record OpenAIConnector =
  oa_api_key :: "ustr option"
  oa_model :: ustr
  oa_base_url :: ustr

record GeminiConnector =
  gm_api_key :: "ustr option"
  gm_model :: ustr
  gm_base_url :: ustr

definition new_OpenAIConnector :: "world \<Rightarrow> ustr option \<Rightarrow> ustr \<Rightarrow> OpenAIConnector" where
  "new_OpenAIConnector w api_key model =
    \<lparr>oa_api_key = py_or api_key (getenv w (u ''OPENAI_API_KEY'')),
     oa_model = model,
     oa_base_url = u ''https://api.openai.com/v1/chat/completions''\<rparr>"

definition new_GeminiConnector :: "world \<Rightarrow> ustr option \<Rightarrow> ustr \<Rightarrow> GeminiConnector" where
  "new_GeminiConnector w api_key model =
    \<lparr>gm_api_key = py_or api_key (getenv w (u ''GOOGLE_API_KEY'')),
     gm_model = model,
     gm_base_url = u ''https://generativelanguage.googleapis.com/v1beta/models/'' @ model
                     @ u '':generateContent''\<rparr>"

definition llm_failure :: "ustr \<Rightarrow> pyval \<Rightarrow> LLMResponse" where
  "llm_failure model msg =
    \<lparr>llm_content = PStr [], llm_model = model, llm_tokens_used = PInt 0,
     llm_success = False, llm_error_message = msg\<rparr>"

text \<open>The body of the \<open>try\<close> of \<open>OpenAIConnector.generate\<close>, after the request.\<close>

definition OpenAI_read :: "ustr \<Rightarrow> exn + http_response \<Rightarrow> exn + LLMResponse" where
  "OpenAI_read model sent =
    exn_bind sent (\<lambda>response.
    exn_bind (resp_json response) (\<lambda>data.
    exn_bind (py_contains (u ''error'') data) (\<lambda>has_error.
      if has_error
      then exn_bind (py_getitem data (u ''error'')) (\<lambda>err.
           exn_bind (py_getitem err (u ''message'')) (\<lambda>msg.
             Inr (llm_failure model msg)))
      else exn_bind (py_getitem data (u ''choices'')) (\<lambda>choices.
           exn_bind (py_getitem0 choices) (\<lambda>choice.
           exn_bind (py_getitem choice (u ''message'')) (\<lambda>message.
           exn_bind (py_getitem message (u ''content'')) (\<lambda>content.
           exn_bind (py_get data (u ''usage'') (PDict [])) (\<lambda>usage.
           exn_bind (py_get usage (u ''total_tokens'') (PInt 0)) (\<lambda>tokens.
             Inr \<lparr>llm_content = content, llm_model = model, llm_tokens_used = tokens,
                  llm_success = True, llm_error_message = PNone\<rparr>)))))))))"

definition OpenAI_generate ::
  "world \<Rightarrow> OpenAIConnector \<Rightarrow> ustr \<Rightarrow> ustr option \<Rightarrow> LLMResponse \<times> event list" where
  "OpenAI_generate w c prompt system_prompt =
    (case oa_api_key c of
       None \<Rightarrow> (llm_failure (oa_model c) (PStr (u ''API key not configured'')), [])
     | Some key \<Rightarrow>
         if key = [] then (llm_failure (oa_model c) (PStr (u ''API key not configured'')), [])
         else
           (let messages =
                  (case system_prompt of
                     None \<Rightarrow> []
                   | Some sp \<Rightarrow>
                       if sp = [] then []
                       else [PDict [(u ''role'', PStr (u ''system'')), (u ''content'', PStr sp)]])
                  @ [PDict [(u ''role'', PStr (u ''user'')), (u ''content'', PStr prompt)]];
                req = \<lparr>req_method = POST, req_url = oa_base_url c,
                       req_headers = [(u ''Authorization'', u ''Bearer '' @ key),
                                      (u ''Content-Type'', u ''application/json'')],
                       req_json = Some (PDict [(u ''model'', PStr (oa_model c)),
                                               (u ''messages'', PList messages),
                                               (u ''temperature'', PFloat (u ''0.7''))]),
                       req_timeout = 60\<rparr>
            in (case OpenAI_read (oa_model c) (send_request w req) of
                  Inr r \<Rightarrow> r
                | Inl e \<Rightarrow> llm_failure (oa_model c) (PStr (exc_str w e)),
                [Http req])))"

definition Gemini_read :: "ustr \<Rightarrow> exn + http_response \<Rightarrow> exn + LLMResponse" where
  "Gemini_read model sent =
    exn_bind sent (\<lambda>response.
    exn_bind (resp_json response) (\<lambda>data.
    exn_bind (py_contains (u ''error'') data) (\<lambda>has_error.
      if has_error
      then exn_bind (py_getitem data (u ''error'')) (\<lambda>err.
           exn_bind (py_getitem err (u ''message'')) (\<lambda>msg.
             Inr (llm_failure model msg)))
      else exn_bind (py_getitem data (u ''candidates'')) (\<lambda>candidates.
           exn_bind (py_getitem0 candidates) (\<lambda>candidate.
           exn_bind (py_getitem candidate (u ''content'')) (\<lambda>content.
           exn_bind (py_getitem content (u ''parts'')) (\<lambda>parts.
           exn_bind (py_getitem0 parts) (\<lambda>part.
           exn_bind (py_getitem part (u ''text'')) (\<lambda>text.
             Inr \<lparr>llm_content = text, llm_model = model, llm_tokens_used = PInt 0,
                  llm_success = True, llm_error_message = PNone\<rparr>)))))))))"

definition Gemini_generate ::
  "world \<Rightarrow> GeminiConnector \<Rightarrow> ustr \<Rightarrow> ustr option \<Rightarrow> LLMResponse \<times> event list" where
  "Gemini_generate w c prompt system_prompt =
    (case gm_api_key c of
       None \<Rightarrow> (llm_failure (gm_model c) (PStr (u ''API key not configured'')), [])
     | Some key \<Rightarrow>
         if key = [] then (llm_failure (gm_model c) (PStr (u ''API key not configured'')), [])
         else
           (let full_prompt =
                  (case system_prompt of
                     None \<Rightarrow> prompt
                   | Some sp \<Rightarrow> if sp = [] then prompt else sp @ [10, 10] @ prompt);
                req = \<lparr>req_method = POST, req_url = gm_base_url c @ u ''?key='' @ key,
                       req_headers = [(u ''Content-Type'', u ''application/json'')],
                       req_json = Some (PDict [(u ''contents'',
                         PList [PDict [(u ''parts'',
                           PList [PDict [(u ''text'', PStr full_prompt)]])]])]),
                       req_timeout = 60\<rparr>
            in (case Gemini_read (gm_model c) (send_request w req) of
                  Inr r \<Rightarrow> r
                | Inl e \<Rightarrow> llm_failure (gm_model c) (PStr (exc_str w e)),
                [Http req])))"

datatype llm_connector = OpenAI OpenAIConnector | Gemini GeminiConnector

fun generate :: "world \<Rightarrow> llm_connector \<Rightarrow> ustr \<Rightarrow> ustr option \<Rightarrow> LLMResponse \<times> event list" where
  "generate w (OpenAI c) prompt system_prompt = OpenAI_generate w c prompt system_prompt"
| "generate w (Gemini c) prompt system_prompt = Gemini_generate w c prompt system_prompt"

fun connector_api_key :: "llm_connector \<Rightarrow> ustr option" where
  "connector_api_key (OpenAI c) = oa_api_key c"
| "connector_api_key (Gemini c) = gm_api_key c"

fun connector_model :: "llm_connector \<Rightarrow> ustr" where
  "connector_model (OpenAI c) = oa_model c"
| "connector_model (Gemini c) = gm_model c"

text \<open>The instruction of \<open>summarize\<close> and the prefix of its failure string.\<close>

definition summarize_instruction :: ustr where
  "summarize_instruction =
    [35531, 29992, 32321, 39636, 20013, 25991, 31777, 35201, 25688, 35201, 20197, 19979,
     26032, 32862, 20839, 23481, 65288, 32004, 32, 49, 48, 48, 32, 23383, 65289, 65306, 10, 10]"

definition summarize_failed :: ustr where
  "summarize_failed = [25688, 35201, 22833, 25943, 58, 32]"

text \<open>
  \<open>summarize\<close> is the same in both classes: it returns \<open>result.content\<close> as it is on
  success, and the formatted failure string otherwise.
\<close>

definition summarize :: "world \<Rightarrow> llm_connector \<Rightarrow> ustr \<Rightarrow> pyval \<times> event list" where
  "summarize w c text =
    (let prompt = summarize_instruction @ text;
         (result, trace) = generate w c prompt None
     in (if llm_success result then llm_content result
         else PStr (summarize_failed @ py_format w (llm_error_message result)),
         Call_summarize text # trace))"

subsection \<open>Messaging connectors\<close>

record DiscordWebhookConnector =
  discord_webhook_url :: "ustr option"

record TelegramConnector =
  bot_token :: "ustr option"
  chat_id :: "ustr option"

record SlackWebhookConnector =
  slack_webhook_url :: "ustr option"

record LINEMessagingConnector =
  channel_access_token :: "ustr option"
  user_id :: "ustr option"

definition message_failure :: "ustr \<Rightarrow> pyval \<Rightarrow> MessageResult" where
  "message_failure platform msg =
    \<lparr>mr_platform = platform, mr_success = PBool False, mr_message_id = None,
     mr_error_message = msg\<rparr>"

definition post_json :: "ustr \<Rightarrow> (ustr \<times> ustr) list \<Rightarrow> pyval \<Rightarrow> http_request" where
  "post_json url headers body =
    \<lparr>req_method = POST, req_url = url, req_headers = headers, req_json = Some body,
     req_timeout = 10\<rparr>"

definition Discord_send ::
  "world \<Rightarrow> DiscordWebhookConnector \<Rightarrow> ustr \<Rightarrow> MessageResult \<times> event list" where
  "Discord_send w c message =
    (case discord_webhook_url c of
       None \<Rightarrow> (message_failure (u ''discord'') (PStr (u ''Webhook URL not configured'')), [])
     | Some url \<Rightarrow>
         if url = []
         then (message_failure (u ''discord'') (PStr (u ''Webhook URL not configured'')), [])
         else
           (let req = post_json url [] (PDict [(u ''content'', PStr message)])
            in (case send_request w req of
                  Inr response \<Rightarrow>
                    \<lparr>mr_platform = u ''discord'',
                     mr_success = PBool (resp_status_code response = 200
                                          \<or> resp_status_code response = 204),
                     mr_message_id = None,
                     mr_error_message =
                       (if resp_ok response then PNone else PStr (resp_text response))\<rparr>
                | Inl e \<Rightarrow> message_failure (u ''discord'') (PStr (exc_str w e)),
                [Http req])))"

definition Telegram_read :: "world \<Rightarrow> exn + http_response \<Rightarrow> exn + MessageResult" where
  "Telegram_read w sent =
    exn_bind sent (\<lambda>response.
    exn_bind (resp_json response) (\<lambda>data.
    exn_bind (py_get data (u ''ok'') (PBool False)) (\<lambda>ok.
    exn_bind (py_get data (u ''result'') (PDict [])) (\<lambda>result.
    exn_bind (py_get result (u ''message_id'') PNone) (\<lambda>message_id.
    exn_bind (py_get data (u ''description'') PNone) (\<lambda>description.
      Inr \<lparr>mr_platform = u ''telegram'', mr_success = ok,
           mr_message_id = Some (py_format w message_id),
           mr_error_message = description\<rparr>))))))"

definition Telegram_send ::
  "world \<Rightarrow> TelegramConnector \<Rightarrow> ustr \<Rightarrow> MessageResult \<times> event list" where
  "Telegram_send w c message =
    (case (bot_token c, chat_id c) of
       (Some token, Some chat) \<Rightarrow>
         if token = [] \<or> chat = []
         then (message_failure (u ''telegram'')
                 (PStr (u ''Bot token or chat ID not configured'')), [])
         else
           (let url = u ''https://api.telegram.org/bot'' @ token @ u ''/sendMessage'';
                req = post_json url []
                        (PDict [(u ''chat_id'', PStr chat), (u ''text'', PStr message),
                                (u ''parse_mode'', PStr (u ''HTML''))])
            in (case Telegram_read w (send_request w req) of
                  Inr r \<Rightarrow> r
                | Inl e \<Rightarrow> message_failure (u ''telegram'') (PStr (exc_str w e)),
                [Http req]))
     | other \<Rightarrow>
         (message_failure (u ''telegram'')
            (PStr (u ''Bot token or chat ID not configured'')), []))"

definition Slack_send ::
  "world \<Rightarrow> SlackWebhookConnector \<Rightarrow> ustr \<Rightarrow> MessageResult \<times> event list" where
  "Slack_send w c message =
    (case slack_webhook_url c of
       None \<Rightarrow> (message_failure (u ''slack'') (PStr (u ''Webhook URL not configured'')), [])
     | Some url \<Rightarrow>
         if url = []
         then (message_failure (u ''slack'') (PStr (u ''Webhook URL not configured'')), [])
         else
           (let req = post_json url [] (PDict [(u ''text'', PStr message)])
            in (case send_request w req of
                  Inr response \<Rightarrow>
                    \<lparr>mr_platform = u ''slack'',
                     mr_success = PBool (resp_status_code response = 200),
                     mr_message_id = None,
                     mr_error_message =
                       (if resp_ok response then PNone else PStr (resp_text response))\<rparr>
                | Inl e \<Rightarrow> message_failure (u ''slack'') (PStr (exc_str w e)),
                [Http req])))"

definition PUSH_API_URL :: ustr where
  "PUSH_API_URL = u ''https://api.line.me/v2/bot/message/push''"

text \<open>The body of the \<open>try\<close> of \<open>_send_messages\<close>, after the request.\<close>

definition LINE_read :: "exn + http_response \<Rightarrow> exn + MessageResult" where
  "LINE_read sent =
    exn_bind sent (\<lambda>response.
      if resp_status_code response = 200
      then Inr \<lparr>mr_platform = u ''line'', mr_success = PBool True, mr_message_id = None,
                mr_error_message = PNone\<rparr>
      else exn_bind (resp_json response) (\<lambda>error_data.
           exn_bind (py_get error_data (u ''message'') (PStr (resp_text response))) (\<lambda>msg.
             Inr (message_failure (u ''line'') msg))))"

definition send_messages ::
  "world \<Rightarrow> LINEMessagingConnector \<Rightarrow> pyval list \<Rightarrow> ustr option \<Rightarrow> MessageResult \<times> event list" where
  "send_messages w c messages uid =
    (let target_user = py_or uid (user_id c)
     in (case channel_access_token c of
           None \<Rightarrow>
             (message_failure (u ''line'')
                (PStr (u ''LINE Channel Access Token not configured'')), [])
         | Some token \<Rightarrow>
             if token = []
             then (message_failure (u ''line'')
                     (PStr (u ''LINE Channel Access Token not configured'')), [])
             else
               (case target_user of
                  None \<Rightarrow>
                    (message_failure (u ''line'') (PStr (u ''LINE User ID not configured'')), [])
                | Some target \<Rightarrow>
                    if target = []
                    then (message_failure (u ''line'')
                            (PStr (u ''LINE User ID not configured'')), [])
                    else
                      (let headers = [(u ''Authorization'', u ''Bearer '' @ token),
                                      (u ''Content-Type'', u ''application/json'')];
                           payload = PDict [(u ''to'', PStr target),
                                            (u ''messages'', PList messages)];
                           req = post_json PUSH_API_URL headers payload
                       in (case LINE_read (send_request w req) of
                             Inr r \<Rightarrow> r
                           | Inl e \<Rightarrow> message_failure (u ''line'') (PStr (exc_str w e)),
                           [Http req])))))"

definition LINE_send ::
  "world \<Rightarrow> LINEMessagingConnector \<Rightarrow> ustr \<Rightarrow> ustr option \<Rightarrow> MessageResult \<times> event list" where
  "LINE_send w c message uid =
    send_messages w c [PDict [(u ''type'', PStr (u ''text'')), (u ''text'', PStr message)]] uid"

text \<open>
  One round of the loop of \<open>send_with_quick_reply\<close>: \<open>opt["label"]\<close> raises
  \<open>KeyError\<close> on an option without a label.
\<close>

definition quick_reply_item :: "(ustr \<times> pyval) list \<Rightarrow> exn + pyval" where
  "quick_reply_item opt =
    (if map_of opt (u ''data'') \<noteq> None
     then exn_bind (py_getitem (PDict opt) (u ''label'')) (\<lambda>label.
          exn_bind (py_getitem (PDict opt) (u ''data'')) (\<lambda>data.
          exn_bind (py_getitem (PDict opt) (u ''label'')) (\<lambda>label2.
          exn_bind (py_get (PDict opt) (u ''display_text'') label2) (\<lambda>display_text.
            Inr (PDict [(u ''type'', PStr (u ''action'')),
                        (u ''action'',
                         PDict [(u ''type'', PStr (u ''postback'')), (u ''label'', label),
                                (u ''data'', data), (u ''displayText'', display_text)])])))))
     else exn_bind (py_getitem (PDict opt) (u ''label'')) (\<lambda>label.
          exn_bind (py_getitem (PDict opt) (u ''label'')) (\<lambda>label2.
          exn_bind (py_get (PDict opt) (u ''text'') label2) (\<lambda>text.
            Inr (PDict [(u ''type'', PStr (u ''action'')),
                        (u ''action'',
                         PDict [(u ''type'', PStr (u ''message'')), (u ''label'', label),
                                (u ''text'', text)])])))))"

fun quick_reply_items :: "(ustr \<times> pyval) list list \<Rightarrow> exn + pyval list" where
  "quick_reply_items [] = Inr []"
| "quick_reply_items (opt # opts) =
     exn_bind (quick_reply_item opt) (\<lambda>item.
     exn_bind (quick_reply_items opts) (\<lambda>items. Inr (item # items)))"

definition send_with_quick_reply ::
  "world \<Rightarrow> LINEMessagingConnector \<Rightarrow> ustr \<Rightarrow> (ustr \<times> pyval) list list \<Rightarrow> ustr option
    \<Rightarrow> (exn + MessageResult) \<times> event list" where
  "send_with_quick_reply w c message options uid =
    (case quick_reply_items (take 13 options) of
       Inl e \<Rightarrow> (Inl e, [])
     | Inr items \<Rightarrow>
         (let messages = [PDict [(u ''type'', PStr (u ''text'')),
                                 (u ''text'', PStr message),
                                 (u ''quickReply'', PDict [(u ''items'', PList items)])]];
              (result, trace) = send_messages w c messages uid
          in (Inr result, trace)))"

datatype messaging_connector =
    Discord DiscordWebhookConnector
  | Telegram TelegramConnector
  | Slack SlackWebhookConnector
  | Line LINEMessagingConnector

text \<open>\<open>messenger.send(message)\<close>, as \<open>process\<close> calls it: no keyword argument.\<close>

fun send :: "world \<Rightarrow> messaging_connector \<Rightarrow> ustr \<Rightarrow> MessageResult \<times> event list" where
  "send w (Discord c) message = Discord_send w c message"
| "send w (Telegram c) message = Telegram_send w c message"
| "send w (Slack c) message = Slack_send w c message"
| "send w (Line c) message = LINE_send w c message None"

definition create_llm_connector :: "world \<Rightarrow> LLMProvider \<Rightarrow> llm_connector" where
  "create_llm_connector w provider =
    (case provider of
       OPENAI \<Rightarrow> OpenAI (new_OpenAIConnector w None (u ''gpt-4o-mini''))
     | GEMINI \<Rightarrow> Gemini (new_GeminiConnector w None (u ''gemini-2.0-flash'')))"

definition create_messaging_connector :: "world \<Rightarrow> MessagingPlatform \<Rightarrow> messaging_connector" where
  "create_messaging_connector w platform =
    (case platform of
       DISCORD \<Rightarrow> Discord \<lparr>discord_webhook_url = py_or None (getenv w (u ''DISCORD_WEBHOOK_URL''))\<rparr>
     | TELEGRAM \<Rightarrow>
         Telegram \<lparr>bot_token = py_or None (getenv w (u ''TELEGRAM_BOT_TOKEN'')),
                   chat_id = py_or None (getenv w (u ''TELEGRAM_CHAT_ID''))\<rparr>
     | SLACK \<Rightarrow> Slack \<lparr>slack_webhook_url = py_or None (getenv w (u ''SLACK_WEBHOOK_URL''))\<rparr>
     | LINE \<Rightarrow>
         Line \<lparr>channel_access_token = py_or None (getenv w (u ''LINE_CHANNEL_ACCESS_TOKEN'')),
               user_id = py_or None (getenv w (u ''LINE_USER_ID''))\<rparr>)"

section \<open>main.py\<close>

record MoltbotNewsCrawler =
  crawler :: NewsCrawler
  text_filter :: TextFilter
  analyzer :: KeywordAnalyzer
  llm :: llm_connector
  messenger :: "messaging_connector option"

definition new_MoltbotNewsCrawler ::
  "world \<Rightarrow> LLMProvider \<Rightarrow> MessagingPlatform option \<Rightarrow> MoltbotNewsCrawler" where
  "new_MoltbotNewsCrawler w llm_provider messaging_platform =
    \<lparr>crawler = new_NewsCrawler 30 None,
     text_filter = \<lparr>min_paragraph_length = 20\<rparr>,
     analyzer = \<lparr>top_n = 20, min_word_length = 2\<rparr>,
     llm = create_llm_connector w llm_provider,
     messenger = map_option (create_messaging_connector w) messaging_platform\<rparr>"

definition fetch_failed :: ustr where
  "fetch_failed = [29228, 21462, 22833, 25943, 58, 32]"

definition keyword_value :: "ustr \<times> nat \<Rightarrow> pyval" where
  "keyword_value kv = PTuple [PStr (fst kv), PInt (int (snd kv))]"

text \<open>
  \<open>process\<close> returns a dictionary or raises; nothing in it catches. The \<open>print\<close> calls
  are left out, but for the slice \<open>summary[:100]\<close> one of them formats, which raises
  on a summary that cannot be sliced.
\<close>

definition process ::
  "world \<Rightarrow> MoltbotNewsCrawler \<Rightarrow> ustr \<Rightarrow> bool \<Rightarrow> (exn + (ustr \<times> pyval) list) \<times> event list" where
  "process w self url send_notification =
    (case fetch w (crawler self) url of
       (Inl e, t1) \<Rightarrow> (Inl e, t1)
     | (Inr crawl_result, t1) \<Rightarrow>
         if \<not> cr_success crawl_result
         then (Inr [(u ''error'',
                     PStr (fetch_failed @ format_opt (cr_error_message crawl_result)))], t1)
         else
           (let filtered = extract_content w (text_filter self) (cr_html crawl_result);
                analysis = analyze w (analyzer self) (fc_body filtered);
                (summary, t2) = summarize w (llm self) (take 3000 (fc_body filtered))
            in (case py_slice_to summary 100 of
                  Inl e \<Rightarrow> (Inl e, t1 @ t2)
                | Inr shown \<Rightarrow>
                    (let t3 = (case messenger self of
                                 None \<Rightarrow> []
                               | Some m \<Rightarrow>
                                   if send_notification
                                   then (let message = [128240, 32] @ fc_title filtered
                                                         @ [10, 10] @ py_format w summary
                                         in Call_send message # snd (send w m message))
                                   else [])
                     in (Inr [(u ''url'', PStr url),
                              (u ''title'', PStr (fc_title filtered)),
                              (u ''summary'', summary),
                              (u ''keywords'',
                               PList (map keyword_value (take 10 (ar_keywords analysis)))),
                              (u ''entities'', PList (map PStr (top_entities analysis))),
                              (u ''word_count'', PInt (int (total_words analysis)))],
                         t1 @ t2 @ t3)))))"

section \<open>Reading a trace\<close>

fun summarize_calls :: "event list \<Rightarrow> ustr list" where
  "summarize_calls [] = []"
| "summarize_calls (Call_summarize text # es) = text # summarize_calls es"
| "summarize_calls (e # es) = summarize_calls es"

fun requests :: "event list \<Rightarrow> http_request list" where
  "requests [] = []"
| "requests (Http req # es) = req # requests es"
| "requests (e # es) = requests es"

text \<open>The quick-reply items a push request carries.\<close>

definition sent_items :: "http_request \<Rightarrow> pyval list option" where
  "sent_items req =
    (case req_json req of
       Some (PDict payload) \<Rightarrow>
         (case map_of payload (u ''messages'') of
            Some (PList [PDict message]) \<Rightarrow>
              (case map_of message (u ''quickReply'') of
                 Some (PDict quick_reply) \<Rightarrow>
                   (case map_of quick_reply (u ''items'') of
                      Some (PList items) \<Rightarrow> Some items
                    | other \<Rightarrow> None)
               | other \<Rightarrow> None)
          | other \<Rightarrow> None)
     | other \<Rightarrow> None)"

section \<open>Concrete environments for the examples\<close>

definition ascii_lower :: "ustr \<Rightarrow> ustr" where
  "ascii_lower s = map (\<lambda>c. if is_upper c then c + 32 else c) s"

text \<open>A page, and the document the parser makes of it.\<close>

definition sample_html :: ustr where
  "sample_html =
    u ''<html><nav><p>Navigation links are no content</p></nav><h1> Chip news </h1><p>Alpha Beta met Gamma Delta</p><p>too short</p><div class=Sidebar><p>A sidebar is no content either</p></div></html>''"

definition sample_page :: "node list" where
  "sample_page =
    [Elem (u ''html'') None
      [Elem (u ''nav'') None
         [Elem (u ''p'') None [Text (u ''Navigation links are no content'')]],
       Elem (u ''h1'') None [Text (u '' Chip news '')],
       Elem (u ''p'') None [Text (u ''Alpha Beta met Gamma Delta'')],
       Elem (u ''p'') None [Text (u ''too short'')],
       Elem (u ''div'') (Some [u ''Sidebar''])
         [Elem (u ''p'') None [Text (u ''A sidebar is no content either'')]]]]"

text \<open>
  An environment without network (every request times out), without credentials and
  without jieba, whose sets iterate from the last element inserted to the first; its
  parser is given on the sample page and on the empty text.
\<close>

definition test_world :: world where
  "test_world =
    \<lparr>send_request = (\<lambda>req. Inl (RequestException (u ''timeout''))),
     getenv = (\<lambda>name. None),
     exc_str = (\<lambda>e. case e of RequestException m \<Rightarrow> m | OtherError m \<Rightarrow> m
                      | other \<Rightarrow> u ''error''),
     py_repr = (\<lambda>v. u ''?''),
     str_lower = ascii_lower,
     is_decimal = (\<lambda>c. 48 \<le> c \<and> c \<le> 57),
     jieba_cut = None,
     set_iter = (\<lambda>xs. rev (remdups xs)),
     html_parse = (\<lambda>html. if html = sample_html then sample_page else []),
     re_search_i = (\<lambda>pat s. is_substring (ascii_lower pat) (ascii_lower s))\<rparr>"

definition page_response :: http_response where
  "page_response =
    \<lparr>resp_status_code = 200, resp_text = sample_html,
     resp_json = Inl (OtherError (u ''not JSON''))\<rparr>"

definition empty_page_response :: http_response where
  "empty_page_response =
    \<lparr>resp_status_code = 200, resp_text = [],
     resp_json = Inl (OtherError (u ''not JSON''))\<rparr>"

definition not_found_response :: http_response where
  "not_found_response =
    \<lparr>resp_status_code = 404, resp_text = u ''Not Found'',
     resp_json = Inl (OtherError (u ''not JSON''))\<rparr>"

text \<open>An environment whose server answers every request with 404 and a body.\<close>

definition not_found_world :: world where
  "not_found_world = test_world\<lparr>send_request := (\<lambda>req. Inr not_found_response)\<rparr>"

text \<open>One whose server answers every request with 200 and an empty body, and one whose
  HTTP library raises something that is no \<open>RequestException\<close>.\<close>

definition empty_page_world :: world where
  "empty_page_world = test_world\<lparr>send_request := (\<lambda>req. Inr empty_page_response)\<rparr>"

definition crash_world :: world where
  "crash_world = test_world\<lparr>send_request := (\<lambda>req. Inl (OtherError (u ''crash'')))\<rparr>"

text \<open>One whose server answers every request with the sample page.\<close>

definition page_world :: world where
  "page_world = test_world\<lparr>send_request := (\<lambda>req. Inr page_response)\<rparr>"

text \<open>
  One with an OpenAI key, whose pages are the sample page and whose chat-completion reply
  holds one choice, its message with \<open>content\<close> \<open>null\<close>.
\<close>

definition null_content_response :: http_response where
  "null_content_response =
    \<lparr>resp_status_code = 200, resp_text = u ''{}'',
     resp_json = Inr (PDict [(u ''choices'',
                   PList [PDict [(u ''message'', PDict [(u ''content'', PNone)])]])])\<rparr>"

definition null_content_world :: world where
  "null_content_world =
    test_world\<lparr>send_request :=
                  (\<lambda>req. case req_method req of GET \<Rightarrow> Inr page_response
                                                | POST \<Rightarrow> Inr null_content_response),
               getenv := (\<lambda>name. if name = u ''OPENAI_API_KEY'' then Some (u ''sk-test'')
                                 else None)\<rparr>"

definition example_url :: ustr where
  "example_url = u ''http://example.com/missing''"

definition page_result :: CrawlResult where
  "page_result =
    \<lparr>cr_url = example_url, cr_html = sample_html, cr_status_code = 200,
     cr_success = True, cr_error_message = None\<rparr>"

definition not_found_result :: CrawlResult where
  "not_found_result =
    \<lparr>cr_url = example_url, cr_html = u ''Not Found'',
     cr_status_code = 404, cr_success = False, cr_error_message = None\<rparr>"

definition empty_page_result :: CrawlResult where
  "empty_page_result =
    \<lparr>cr_url = example_url, cr_html = [],
     cr_status_code = 200, cr_success = True, cr_error_message = None\<rparr>"

definition timeout_result :: CrawlResult where
  "timeout_result =
    \<lparr>cr_url = example_url, cr_html = [], cr_status_code = 0, cr_success = False,
     cr_error_message = Some (u ''timeout'')\<rparr>"

text \<open>
  An environment whose server accepts every request, a LINE connector with token and
  recipient, fifteen options with a label each, and the action item of one of them.
\<close>

definition line_world :: world where
  "line_world =
    test_world\<lparr>send_request := (\<lambda>req. Inr \<lparr>resp_status_code = 200, resp_text = u ''{}'',
                                            resp_json = Inr (PDict [])\<rparr>)\<rparr>"

definition line_connector :: LINEMessagingConnector where
  "line_connector = \<lparr>channel_access_token = Some (u ''token''), user_id = Some (u ''U1'')\<rparr>"

definition fifteen_options :: "(ustr \<times> pyval) list list" where
  "fifteen_options = replicate 15 [(u ''label'', PStr (u ''Yes''))]"

definition yes_item :: pyval where
  "yes_item =
    PDict [(u ''type'', PStr (u ''action'')),
           (u ''action'',
            PDict [(u ''type'', PStr (u ''message'')), (u ''label'', PStr (u ''Yes'')),
                   (u ''text'', PStr (u ''Yes''))])]"

text \<open>
  One whose server answers every request with a page of one paragraph of 3001 letters.
\<close>

definition long_text :: ustr where
  "long_text = replicate 3001 97"

definition long_html :: ustr where
  "long_html = u ''<p>'' @ long_text @ u ''</p>''"

definition long_world :: world where
  "long_world =
    test_world\<lparr>send_request :=
                  (\<lambda>req. Inr \<lparr>resp_status_code = 200, resp_text = long_html,
                               resp_json = Inl (OtherError (u ''not JSON''))\<rparr>),
               html_parse :=
                  (\<lambda>html. if html = long_html then [Elem (u ''p'') None [Text long_text]]
                           else [])\<rparr>"

text \<open>The analyzer as \<open>KeywordAnalyzer()\<close> makes it, and two texts.\<close>

definition default_analyzer :: KeywordAnalyzer where
  "default_analyzer = \<lparr>top_n = 20, min_word_length = 2\<rparr>"

definition sample_body :: ustr where
  "sample_body = u ''Alpha Beta met Gamma Delta''"

definition chip_text :: ustr where
  "chip_text = u ''the Chip chip a fair''"

text \<open>The sample page after the denylisted tags are removed, and after the noise classes.\<close>

definition sample_page_tags_removed :: "node list" where
  "sample_page_tags_removed =
    [Elem (u ''html'') None
      [Elem (u ''h1'') None [Text (u '' Chip news '')],
       Elem (u ''p'') None [Text (u ''Alpha Beta met Gamma Delta'')],
       Elem (u ''p'') None [Text (u ''too short'')],
       Elem (u ''div'') (Some [u ''Sidebar''])
         [Elem (u ''p'') None [Text (u ''A sidebar is no content either'')]]]]"

definition sample_page_cleaned :: "node list" where
  "sample_page_cleaned =
    [Elem (u ''html'') None
      [Elem (u ''h1'') None [Text (u '' Chip news '')],
       Elem (u ''p'') None [Text (u ''Alpha Beta met Gamma Delta'')],
       Elem (u ''p'') None [Text (u ''too short'')]]]"

definition sample_content :: FilteredContent where
  "sample_content =
    \<lparr>fc_title = u ''Chip news'', fc_body = u ''Alpha Beta met Gamma Delta'',
     fc_paragraphs = [u ''Alpha Beta met Gamma Delta''], fc_word_count = 26\<rparr>"

section \<open>The fetcher's result\<close>

lemma fetch_cases:
  "fetch w c url =
    (case send_request w (get_request c url) of
       Inr response \<Rightarrow>
         (Inr \<lparr>cr_url = url, cr_html = resp_text response,
               cr_status_code = resp_status_code response,
               cr_success = (resp_status_code response = 200),
               cr_error_message = None\<rparr>, [Http (get_request c url)])
     | Inl e \<Rightarrow>
         (if is_RequestException e
          then Inr \<lparr>cr_url = url, cr_html = [], cr_status_code = 0,
                    cr_success = False, cr_error_message = Some (exc_str w e)\<rparr>
          else Inl e, [Http (get_request c url)]))"
  by (simp add: fetch_def Let_def split: sum.splits)

lemma fetch_not_found:
  "fst (fetch not_found_world (new_NewsCrawler 30 None) example_url) = Inr not_found_result"
  by (simp add: fetch_cases not_found_world_def not_found_response_def not_found_result_def)

lemma fetch_empty_page:
  "fst (fetch empty_page_world (new_NewsCrawler 30 None) example_url) = Inr empty_page_result"
  by (simp add: fetch_cases empty_page_world_def empty_page_response_def
      empty_page_result_def)

lemma fetch_timeout:
  "fst (fetch test_world (new_NewsCrawler 30 None) example_url) = Inr timeout_result"
  by (simp add: fetch_cases test_world_def timeout_result_def)

text \<open>
  C3, as the spec states it, fails in both halves. A response with a status other than
  200 gives \<open>success = False\<close> and keeps the response body in \<open>html\<close>: here the
  server answers 404 with the body \<open>Not Found\<close>. A response with status 200 and an
  empty body gives \<open>success = True\<close> with an empty \<open>html\<close>.
\<close>

theorem fetch_breaks_body_invariant:
  "fst (fetch not_found_world (new_NewsCrawler 30 None) example_url) = Inr not_found_result
   \<and> \<not> cr_success not_found_result \<and> cr_html not_found_result \<noteq> []
   \<and> fst (fetch empty_page_world (new_NewsCrawler 30 None) example_url)
       = Inr empty_page_result
   \<and> cr_success empty_page_result \<and> cr_html empty_page_result = []"
  using fetch_not_found fetch_empty_page
  by (simp add: not_found_result_def empty_page_result_def u_def)

text \<open>
  C3, amended. What \<open>fetch\<close> returns is fixed by what the request does:
  \<^item> a response that arrives, whatever its status, gives the result with the response text
    as \<open>html\<close>, the response status as status code, \<open>success\<close> exactly when that status
    is 200, and no error message;
  \<^item> a \<open>RequestException\<close> gives \<open>success = False\<close>, status code 0, an empty \<open>html\<close>
    and the exception's text as error message;
  \<^item> any other exception leaves \<open>fetch\<close>.

  So for every result returned, \<open>success\<close> holds exactly when the status code is 200, and
  the result has an error message exactly when the request raised a
  \<open>RequestException\<close>, in which case \<open>html\<close> is empty and the status code is 0.
\<close>

theorem fetch_result_shape:
  "(\<forall>response. send_request w (get_request c url) = Inr response \<longrightarrow>
      fst (fetch w c url) =
        Inr \<lparr>cr_url = url, cr_html = resp_text response,
             cr_status_code = resp_status_code response,
             cr_success = (resp_status_code response = 200),
             cr_error_message = None\<rparr>) \<and>
   (\<forall>e. send_request w (get_request c url) = Inl e \<and> is_RequestException e \<longrightarrow>
      fst (fetch w c url) =
        Inr \<lparr>cr_url = url, cr_html = [], cr_status_code = 0, cr_success = False,
             cr_error_message = Some (exc_str w e)\<rparr>) \<and>
   (\<forall>e. send_request w (get_request c url) = Inl e \<and> \<not> is_RequestException e \<longrightarrow>
      fst (fetch w c url) = Inl e) \<and>
   (\<forall>r. fst (fetch w c url) = Inr r \<longrightarrow>
      (cr_success r \<longleftrightarrow> cr_status_code r = 200) \<and>
      (cr_error_message r \<noteq> None \<longleftrightarrow>
         (\<exists>e. send_request w (get_request c url) = Inl e \<and> is_RequestException e)) \<and>
      (cr_error_message r \<noteq> None \<longrightarrow>
         \<not> cr_success r \<and> cr_status_code r = 0 \<and> cr_html r = []))"
  by (auto simp: fetch_cases split: sum.splits if_splits)

text \<open>
  The theorem at a 404 response with a body, at a 200 response without one, at a request
  that times out and at one that raises another exception.
\<close>

theorem fetch_result_shape_witness:
  "fst (fetch not_found_world (new_NewsCrawler 30 None) example_url)
     = Inr \<lparr>cr_url = example_url, cr_html = u ''Not Found'', cr_status_code = 404,
            cr_success = False, cr_error_message = None\<rparr>
   \<and> fst (fetch empty_page_world (new_NewsCrawler 30 None) example_url)
     = Inr \<lparr>cr_url = example_url, cr_html = [], cr_status_code = 200,
            cr_success = True, cr_error_message = None\<rparr>
   \<and> fst (fetch test_world (new_NewsCrawler 30 None) example_url)
     = Inr \<lparr>cr_url = example_url, cr_html = [], cr_status_code = 0,
            cr_success = False, cr_error_message = Some (u ''timeout'')\<rparr>
   \<and> fst (fetch crash_world (new_NewsCrawler 30 None) example_url)
     = Inl (OtherError (u ''crash''))"
proof -
  let ?c = "new_NewsCrawler 30 None"
  have a: "send_request not_found_world (get_request ?c example_url) = Inr not_found_response"
    by (simp add: not_found_world_def)
  have b: "send_request empty_page_world (get_request ?c example_url) = Inr empty_page_response"
    by (simp add: empty_page_world_def)
  have c: "send_request test_world (get_request ?c example_url)
             = Inl (RequestException (u ''timeout''))
           \<and> is_RequestException (RequestException (u ''timeout''))"
    by (simp add: test_world_def)
  have d: "send_request crash_world (get_request ?c example_url) = Inl (OtherError (u ''crash''))
           \<and> \<not> is_RequestException (OtherError (u ''crash''))"
    by (simp add: crash_world_def)
  have e: "exc_str test_world (RequestException (u ''timeout'')) = u ''timeout''"
    by (simp add: test_world_def)
  from fetch_result_shape [of not_found_world ?c example_url] a
  have 1: "fst (fetch not_found_world ?c example_url)
             = Inr \<lparr>cr_url = example_url, cr_html = u ''Not Found'', cr_status_code = 404,
                    cr_success = False, cr_error_message = None\<rparr>"
    by (simp add: not_found_response_def)
  from fetch_result_shape [of empty_page_world ?c example_url] b
  have 2: "fst (fetch empty_page_world ?c example_url)
             = Inr \<lparr>cr_url = example_url, cr_html = [], cr_status_code = 200,
                    cr_success = True, cr_error_message = None\<rparr>"
    by (simp add: empty_page_response_def)
  from fetch_result_shape [of test_world ?c example_url] c e
  have 3: "fst (fetch test_world ?c example_url)
             = Inr \<lparr>cr_url = example_url, cr_html = [], cr_status_code = 0,
                    cr_success = False, cr_error_message = Some (u ''timeout'')\<rparr>"
    by simp
  from fetch_result_shape [of crash_world ?c example_url] d
  have 4: "fst (fetch crash_world ?c example_url) = Inl (OtherError (u ''crash''))"
    by simp
  from 1 2 3 4 show ?thesis by simp
qed

section \<open>The extractor's paragraphs\<close>

lemma sample_tags_removed:
  "fold (\<lambda>tag soup. soup_decompose (\<lambda>t c. t = tag) soup) REMOVE_TAGS sample_page
     = sample_page_tags_removed"
  by (simp add: sample_page_def sample_page_tags_removed_def REMOVE_TAGS_def
      soup_decompose_def u_def)

lemma sample_noise_removed:
  "fold (\<lambda>class_name soup. soup_decompose (class_matches test_world class_name) soup)
     NOISE_CLASSES sample_page_tags_removed = sample_page_cleaned"
  by (simp add: sample_page_tags_removed_def sample_page_cleaned_def NOISE_CLASSES_def
      soup_decompose_def class_matches_def test_world_def ascii_lower_def is_upper_def u_def)

lemma sample_title_tag:
  "soup_find (\<lambda>t c. t = u ''h1'') sample_page_cleaned
     = Some (Elem (u ''h1'') None [Text (u '' Chip news '')])"
  by (simp add: sample_page_cleaned_def soup_find_def soup_find_all_def u_def)

lemma sample_title:
  "get_text_strip (Elem (u ''h1'') None [Text (u '' Chip news '')]) = u ''Chip news''"
  by (simp add: get_text_strip_def strip_def is_space_def u_def)

lemma sample_texts:
  "map get_text_strip
     (soup_find_all (\<lambda>t c. t = u ''p'' \<or> t = u ''article'') sample_page_cleaned)
     = [u ''Alpha Beta met Gamma Delta'', u ''too short'']"
  by (simp add: sample_page_cleaned_def soup_find_all_def get_text_strip_def strip_def
      is_space_def u_def)

lemma sample_kept:
  "filter (\<lambda>text. 20 \<le> int (length text)) [u ''Alpha Beta met Gamma Delta'', u ''too short'']
     = [u ''Alpha Beta met Gamma Delta'']"
  by (simp add: u_def)

lemma sample_parse: "html_parse test_world sample_html = sample_page"
  by (simp add: test_world_def)

lemma sample_extract:
  "extract_content test_world \<lparr>min_paragraph_length = 20\<rparr> sample_html = sample_content"
  unfolding extract_content_def sample_parse sample_tags_removed sample_noise_removed
    sample_title_tag Let_def sample_content_def
  by (simp add: sample_texts sample_title sample_kept) (simp add: u_def)

text \<open>
  C9: whatever the HTML is, every paragraph \<open>extract\<close> returns is at least as long as the
  configured minimum paragraph length; no shorter paragraph is returned.
\<close>

theorem extract_min_paragraph_length:
  "\<forall>p \<in> set (fc_paragraphs (extract_content w f html)).
     min_paragraph_length f \<le> int (length p)"
  by (simp add: extract_content_def Let_def)

theorem extract_min_paragraph_length_witness:
  "fc_paragraphs (extract_content test_world \<lparr>min_paragraph_length = 20\<rparr> sample_html)
     = [u ''Alpha Beta met Gamma Delta'']
   \<and> (20::int) \<le> int (length (u ''Alpha Beta met Gamma Delta''))"
  using extract_min_paragraph_length
          [of test_world "\<lparr>min_paragraph_length = 20\<rparr>" sample_html]
  by (simp add: sample_extract sample_content_def)

section \<open>The pipeline\<close>

lemma generate_no_summarize_call: "summarize_calls (snd (generate w c prompt sp)) = []"
  by (cases c)
     (auto simp: OpenAI_generate_def Gemini_generate_def Let_def split: option.splits)

lemma send_no_summarize_call: "summarize_calls (snd (send w m message)) = []"
  by (cases m)
     (auto simp: Discord_send_def Telegram_send_def Slack_send_def LINE_send_def
        send_messages_def Let_def split: option.splits)

lemma summarize_calls_append:
  "summarize_calls (xs @ ys) = summarize_calls xs @ summarize_calls ys"
  by (induction xs rule: summarize_calls.induct) simp_all

lemma summarize_trace: "summarize_calls (snd (summarize w c text)) = [text]"
  by (simp add: summarize_def Let_def generate_no_summarize_call split: prod.splits)
     (metis generate_no_summarize_call snd_conv)

lemma fetch_trace: "snd (fetch w c url) = [Http (get_request c url)]"
  by (simp add: fetch_cases split: sum.splits)

lemma process_fetch_failed:
  assumes "fst (fetch w (crawler self) url) = Inr r" and "\<not> cr_success r"
  shows "process w self url n =
           (Inr [(u ''error'', PStr (fetch_failed @ format_opt (cr_error_message r)))],
            [Http (get_request (crawler self) url)])"
  using assms fetch_trace [of w "crawler self" url]
  by (cases "fetch w (crawler self) url") (simp add: process_def)

lemma process_fetch_raised:
  assumes "fst (fetch w (crawler self) url) = Inl e"
  shows "process w self url n = (Inl e, [Http (get_request (crawler self) url)])"
  using assms fetch_trace [of w "crawler self" url]
  by (cases "fetch w (crawler self) url") (simp add: process_def)

lemma process_fetched:
  assumes "fst (fetch w (crawler self) url) = Inr r" and "cr_success r"
  shows "process w self url n =
    (let filtered = extract_content w (text_filter self) (cr_html r);
         analysis = analyze w (analyzer self) (fc_body filtered);
         s = summarize w (llm self) (take 3000 (fc_body filtered));
         t1 = [Http (get_request (crawler self) url)]
     in (case py_slice_to (fst s) 100 of
           Inl e \<Rightarrow> (Inl e, t1 @ snd s)
         | Inr shown \<Rightarrow>
             (Inr [(u ''url'', PStr url),
                   (u ''title'', PStr (fc_title filtered)),
                   (u ''summary'', fst s),
                   (u ''keywords'', PList (map keyword_value (take 10 (ar_keywords analysis)))),
                   (u ''entities'', PList (map PStr (top_entities analysis))),
                   (u ''word_count'', PInt (int (total_words analysis)))],
              t1 @ snd s @
                (case messenger self of
                   None \<Rightarrow> []
                 | Some m \<Rightarrow>
                     if n then Call_send ([128240, 32] @ fc_title filtered @ [10, 10]
                                            @ py_format w (fst s))
                               # snd (send w m ([128240, 32] @ fc_title filtered @ [10, 10]
                                                 @ py_format w (fst s)))
                     else []))))"
  using assms fetch_trace [of w "crawler self" url]
  by (cases "fetch w (crawler self) url")
     (auto simp: process_def Let_def split: prod.splits sum.splits option.splits)

lemma class_matches_update:
  "class_matches (w\<lparr>send_request := s\<rparr>) = class_matches w"
  "class_matches (w\<lparr>getenv := g\<rparr>) = class_matches w"
  by (auto simp: fun_eq_iff class_matches_def split: option.splits)

lemma extract_content_update [simp]:
  "extract_content (w\<lparr>send_request := s\<rparr>) f html = extract_content w f html"
  "extract_content (w\<lparr>getenv := g\<rparr>) f html = extract_content w f html"
  by (simp_all add: extract_content_def class_matches_update)

lemma bot_parts [simp]:
  "crawler (new_MoltbotNewsCrawler w p m) = new_NewsCrawler 30 None"
  "text_filter (new_MoltbotNewsCrawler w p m) = \<lparr>min_paragraph_length = 20\<rparr>"
  "analyzer (new_MoltbotNewsCrawler w p m) = \<lparr>top_n = 20, min_word_length = 2\<rparr>"
  "llm (new_MoltbotNewsCrawler w p m) = create_llm_connector w p"
  "messenger (new_MoltbotNewsCrawler w p None) = None"
  by (simp_all add: new_MoltbotNewsCrawler_def)

lemma fetch_page:
  "fst (fetch page_world (new_NewsCrawler 30 None) example_url) = Inr page_result"
  by (simp add: fetch_cases page_world_def page_response_def page_result_def)

lemma fetch_page_null:
  "fst (fetch null_content_world (new_NewsCrawler 30 None) example_url) = Inr page_result"
  by (simp add: fetch_cases null_content_world_def get_request_def page_response_def
      page_result_def)

text \<open>
  C1, amended: when \<open>fetch\<close> returns a result with \<open>success = False\<close>, \<open>process\<close>
  returns the dictionary with the single key \<open>error\<close>, so it has no \<open>title\<close>,
  \<open>summary\<close> or \<open>keywords\<close>; the value of \<open>error\<close> is the fixed prefix
  \<open>fetch_failed\<close> followed by the fetch result's error message, or by \<open>None\<close> when the
  result has none (a response with a status other than 200).
\<close>

theorem process_fetch_failure:
  assumes "fst (fetch w (crawler self) url) = Inr r" and "\<not> cr_success r"
  shows "fst (process w self url send_notification)
           = Inr [(u ''error'', PStr (fetch_failed @ format_opt (cr_error_message r)))]
         \<and> map_of [(u ''error'', PStr (fetch_failed @ format_opt (cr_error_message r)))]
               (u ''title'') = None
         \<and> map_of [(u ''error'', PStr (fetch_failed @ format_opt (cr_error_message r)))]
               (u ''summary'') = None
         \<and> map_of [(u ''error'', PStr (fetch_failed @ format_opt (cr_error_message r)))]
               (u ''keywords'') = None"
  using process_fetch_failed [OF assms] by (simp add: u_def)

theorem process_fetch_failure_witness:
  "fst (process test_world (new_MoltbotNewsCrawler test_world GEMINI None) example_url False)
     = Inr [(u ''error'', PStr (fetch_failed @ u ''timeout''))]
   \<and> fst (process not_found_world (new_MoltbotNewsCrawler not_found_world GEMINI None)
            example_url False)
     = Inr [(u ''error'', PStr (fetch_failed @ u ''None''))]"
proof -
  have f: "fst (fetch test_world (crawler (new_MoltbotNewsCrawler test_world GEMINI None))
                  example_url) = Inr timeout_result"
    by (simp add: fetch_timeout)
  have n: "\<not> cr_success timeout_result" by (simp add: timeout_result_def)
  from process_fetch_failure [OF f n, of False]
  have a: "fst (process test_world (new_MoltbotNewsCrawler test_world GEMINI None)
                  example_url False)
             = Inr [(u ''error'', PStr (fetch_failed @ u ''timeout''))]"
    by (simp add: timeout_result_def)
  have f': "fst (fetch not_found_world
                   (crawler (new_MoltbotNewsCrawler not_found_world GEMINI None)) example_url)
              = Inr not_found_result"
    by (simp add: fetch_not_found)
  have n': "\<not> cr_success not_found_result" by (simp add: not_found_result_def)
  from process_fetch_failure [OF f' n', of False]
  have b: "fst (process not_found_world (new_MoltbotNewsCrawler not_found_world GEMINI None)
                  example_url False)
             = Inr [(u ''error'', PStr (fetch_failed @ u ''None''))]"
    by (simp add: not_found_result_def)
  from a b show ?thesis by simp
qed

text \<open>
  C1, as the spec states it, fails: the request times out, the fetch result's error
  message is \<open>timeout\<close>, and the failure message of the report is the prefix followed by
  \<open>timeout\<close>, which is not equal to it.
\<close>

theorem process_failure_message_is_prefixed:
  "fst (fetch test_world (new_NewsCrawler 30 None) example_url) = Inr timeout_result
   \<and> \<not> cr_success timeout_result
   \<and> cr_error_message timeout_result = Some (u ''timeout'')
   \<and> fst (process test_world (new_MoltbotNewsCrawler test_world GEMINI None) example_url False)
       = Inr [(u ''error'', PStr (fetch_failed @ u ''timeout''))]
   \<and> PStr (fetch_failed @ u ''timeout'') \<noteq> PStr (u ''timeout'')"
proof -
  have f: "fst (fetch test_world (crawler (new_MoltbotNewsCrawler test_world GEMINI None))
                  example_url) = Inr timeout_result"
    by (simp add: fetch_timeout)
  have n: "\<not> cr_success timeout_result" by (simp add: timeout_result_def)
  from process_fetch_failed [OF f n, of False] fetch_timeout
  show ?thesis by (simp add: timeout_result_def fetch_failed_def)
qed

text \<open>
  C5: in every run of \<open>process\<close> that reaches the summarization (the fetch returned a
  result with \<open>success = True\<close>), \<open>summarize\<close> is called once, with the first 3000
  code points of the extracted body: the text passed is at most 3000 long, and a body of at
  most 3000 code points is passed unchanged.
\<close>

theorem process_truncates_body:
  assumes "fst (fetch w (crawler self) url) = Inr r" and "cr_success r"
    and "body = fc_body (extract_content w (text_filter self) (cr_html r))"
  shows "summarize_calls (snd (process w self url send_notification)) = [take 3000 body]
         \<and> length (take 3000 body) \<le> 3000
         \<and> (length body \<le> 3000 \<longrightarrow> take 3000 body = body)"
  using assms(3)
  by (simp add: process_fetched [OF assms(1,2)] Let_def summarize_calls_append
      summarize_trace send_no_summarize_call split: sum.splits option.splits)

lemma long_strip: "strip long_text = long_text"
  by (simp add: strip_def long_text_def is_space_def)

lemma long_length: "length long_text = 3001"
  by (simp add: long_text_def)

lemma long_body:
  "fc_body (extract_content long_world \<lparr>min_paragraph_length = 20\<rparr> long_html) = long_text"
proof -
  have p: "html_parse long_world long_html = [Elem (u ''p'') None [Text long_text]]"
    by (simp add: long_world_def)
  have t: "fold (\<lambda>tag soup. soup_decompose (\<lambda>t c. t = tag) soup) REMOVE_TAGS
             [Elem (u ''p'') None [Text long_text]] = [Elem (u ''p'') None [Text long_text]]"
    by (simp add: REMOVE_TAGS_def soup_decompose_def u_def)
  have c: "fold (\<lambda>class_name soup. soup_decompose (class_matches long_world class_name) soup)
             NOISE_CLASSES [Elem (u ''p'') None [Text long_text]]
             = [Elem (u ''p'') None [Text long_text]]"
    by (simp add: NOISE_CLASSES_def soup_decompose_def class_matches_def)
  have g: "map get_text_strip
             (soup_find_all (\<lambda>t c. t = u ''p'' \<or> t = u ''article'')
                [Elem (u ''p'') None [Text long_text]]) = [long_text]"
    using long_length
    by (auto simp: soup_find_all_def get_text_strip_def long_strip)
  show ?thesis
    unfolding extract_content_def p t c Let_def
    by (simp add: g long_length)
qed

lemma long_take: "take 3000 long_text = replicate 3000 97"
  by (simp add: long_text_def)

lemma fetch_long:
  "fst (fetch long_world (new_NewsCrawler 30 None) example_url)
     = Inr \<lparr>cr_url = example_url, cr_html = long_html, cr_status_code = 200,
            cr_success = True, cr_error_message = None\<rparr>"
  by (simp add: fetch_cases long_world_def)

theorem process_truncates_body_witness:
  "summarize_calls
     (snd (process page_world (new_MoltbotNewsCrawler page_world GEMINI None) example_url False))
     = [u ''Alpha Beta met Gamma Delta'']
   \<and> summarize_calls
     (snd (process long_world (new_MoltbotNewsCrawler long_world GEMINI None) example_url False))
     = [replicate 3000 97]"
proof -
  let ?self = "new_MoltbotNewsCrawler page_world GEMINI None"
  have f: "fst (fetch page_world (crawler ?self) example_url) = Inr page_result"
    by (simp add: fetch_page)
  have s: "cr_success page_result" by (simp add: page_result_def)
  have b: "u ''Alpha Beta met Gamma Delta''
             = fc_body (extract_content page_world (text_filter ?self) (cr_html page_result))"
    by (simp add: page_world_def page_result_def sample_extract sample_content_def)
  from process_truncates_body [OF f s b, of False]
  have short: "summarize_calls (snd (process page_world ?self example_url False))
                 = [u ''Alpha Beta met Gamma Delta'']"
    by (simp add: u_def)
  let ?long = "new_MoltbotNewsCrawler long_world GEMINI None"
  let ?r = "\<lparr>cr_url = example_url, cr_html = long_html, cr_status_code = 200,
            cr_success = True, cr_error_message = None\<rparr>"
  have f': "fst (fetch long_world (crawler ?long) example_url) = Inr ?r"
    by (simp add: fetch_long)
  have s': "cr_success ?r" by simp
  have b': "long_text = fc_body (extract_content long_world (text_filter ?long) (cr_html ?r))"
    by (simp add: long_body)
  from process_truncates_body [OF f' s' b', of False]
  have long: "summarize_calls (snd (process long_world ?long example_url False))
                = [replicate 3000 97]"
    by (simp add: long_take)
  from short long show ?thesis by simp
qed

lemma summarize_null_content:
  "fst (summarize null_content_world (create_llm_connector null_content_world OPENAI) text)
     = PNone"
  by (simp add: summarize_def create_llm_connector_def new_OpenAIConnector_def py_or_def
      null_content_world_def OpenAI_generate_def OpenAI_read_def exn_bind_def
      null_content_response_def Let_def u_def split: prod.splits)

text \<open>
  C4 says that \<open>process\<close> never raises. It does when the summary cannot be sliced:
  with an OpenAI key configured and a reply whose message content is \<open>null\<close>,
  \<open>generate\<close> succeeds with content \<open>None\<close>, \<open>summarize\<close> returns \<open>None\<close>, and
  \<open>summary[:100]\<close> raises \<open>TypeError\<close>.
\<close>

theorem process_raises_on_null_content:
  "fst (process null_content_world (new_MoltbotNewsCrawler null_content_world OPENAI None)
          example_url False) = Inl TypeError"
proof -
  let ?self = "new_MoltbotNewsCrawler null_content_world OPENAI None"
  have f: "fst (fetch null_content_world (crawler ?self) example_url) = Inr page_result"
    by (simp add: fetch_page_null)
  have s: "cr_success page_result" by (simp add: page_result_def)
  show ?thesis
    by (simp add: process_fetched [OF f s] Let_def summarize_null_content)
qed

text \<open>Where the fetch returns and the summary is a string, \<open>process\<close> returns a report.\<close>

lemma process_returns_when_summary_is_str:
  assumes "fst (fetch w (crawler self) url) = Inr r"
    and "cr_success r \<longrightarrow>
           is_str (fst (summarize w (llm self)
             (take 3000 (fc_body (extract_content w (text_filter self) (cr_html r))))))"
  shows "\<exists>report. fst (process w self url n) = Inr report"
proof (cases "cr_success r")
  case False
  with process_fetch_failed [OF assms(1)] show ?thesis by simp
next
  case True
  let ?s = "fst (summarize w (llm self)
             (take 3000 (fc_body (extract_content w (text_filter self) (cr_html r)))))"
  from True assms(2) obtain t where "?s = PStr t" by (cases ?s) auto
  then show ?thesis
    by (simp add: process_fetched [OF assms(1) True] Let_def)
qed

section \<open>The summarization providers\<close>

lemma generate_unconfigured:
  assumes "\<not> truthy (connector_api_key c)"
  shows "generate w c prompt system_prompt =
           (\<lparr>llm_content = PStr [], llm_model = connector_model c, llm_tokens_used = PInt 0,
             llm_success = False,
             llm_error_message = PStr (u ''API key not configured'')\<rparr>, [])"
  using assms
  by (cases c)
     (auto simp: OpenAI_generate_def Gemini_generate_def llm_failure_def split: option.splits)

lemma summarize_unconfigured:
  assumes "\<not> truthy (connector_api_key c)"
  shows "summarize w c text =
           (PStr (summarize_failed @ u ''API key not configured''), [Call_summarize text])"
  by (simp add: summarize_def generate_unconfigured [OF assms])

lemma unconfigured_connector:
  "\<not> truthy (connector_api_key (create_llm_connector test_world p))"
  by (cases p)
     (simp_all add: create_llm_connector_def new_OpenAIConnector_def new_GeminiConnector_def
        py_or_def test_world_def)

lemma new_connector_without_credential:
  "\<not> truthy key \<and> \<not> truthy (getenv w (u ''OPENAI_API_KEY''))
     \<longrightarrow> \<not> truthy (connector_api_key (OpenAI (new_OpenAIConnector w key model)))"
  "\<not> truthy key \<and> \<not> truthy (getenv w (u ''GOOGLE_API_KEY''))
     \<longrightarrow> \<not> truthy (connector_api_key (Gemini (new_GeminiConnector w key model)))"
  by (simp_all add: new_OpenAIConnector_def new_GeminiConnector_def py_or_def)

text \<open>
  C7, amended: for a connector without a credential (its API key is \<open>None\<close> or empty,
  also after the constructor looked in the environment), \<open>generate\<close> returns the failure
  response with \<open>success = False\<close>, empty content and the message
  \<open>API key not configured\<close>, and sends no request; \<open>summarize\<close> sends no request
  either, and returns a string, the failure prefix followed by that message, not a
  response.
\<close>

theorem unconfigured_llm_fails_locally:
  assumes "\<not> truthy (connector_api_key c)"
  shows "generate w c prompt system_prompt =
           (\<lparr>llm_content = PStr [], llm_model = connector_model c, llm_tokens_used = PInt 0,
             llm_success = False,
             llm_error_message = PStr (u ''API key not configured'')\<rparr>, [])
         \<and> summarize w c text =
           (PStr (summarize_failed @ u ''API key not configured''), [Call_summarize text])
         \<and> requests (snd (generate w c prompt system_prompt)) = []
         \<and> requests (snd (summarize w c text)) = []
         \<and> (\<not> truthy key \<and> \<not> truthy (getenv w (u ''OPENAI_API_KEY''))
              \<longrightarrow> \<not> truthy (connector_api_key (OpenAI (new_OpenAIConnector w key model))))
         \<and> (\<not> truthy key \<and> \<not> truthy (getenv w (u ''GOOGLE_API_KEY''))
              \<longrightarrow> \<not> truthy (connector_api_key (Gemini (new_GeminiConnector w key model))))"
  by (simp add: generate_unconfigured [OF assms] summarize_unconfigured [OF assms]
      new_OpenAIConnector_def new_GeminiConnector_def py_or_def)

theorem unconfigured_llm_fails_locally_witness:
  "generate test_world (create_llm_connector test_world GEMINI) (u ''hello'') None =
     (\<lparr>llm_content = PStr [], llm_model = u ''gemini-2.0-flash'', llm_tokens_used = PInt 0,
       llm_success = False, llm_error_message = PStr (u ''API key not configured'')\<rparr>, [])
   \<and> summarize test_world (create_llm_connector test_world GEMINI) (u ''hello'') =
     (PStr (summarize_failed @ u ''API key not configured''), [Call_summarize (u ''hello'')])
   \<and> generate test_world (create_llm_connector test_world OPENAI) (u ''hello'') None =
     (\<lparr>llm_content = PStr [], llm_model = u ''gpt-4o-mini'', llm_tokens_used = PInt 0,
       llm_success = False, llm_error_message = PStr (u ''API key not configured'')\<rparr>, [])
   \<and> summarize test_world (create_llm_connector test_world OPENAI) (u ''hello'') =
     (PStr (summarize_failed @ u ''API key not configured''), [Call_summarize (u ''hello'')])"
proof -
  have g: "connector_model (create_llm_connector test_world GEMINI) = u ''gemini-2.0-flash''"
    by (simp add: create_llm_connector_def new_GeminiConnector_def)
  have o: "connector_model (create_llm_connector test_world OPENAI) = u ''gpt-4o-mini''"
    by (simp add: create_llm_connector_def new_OpenAIConnector_def)
  from unconfigured_llm_fails_locally
         [OF unconfigured_connector, of test_world GEMINI "u ''hello''" None "u ''hello''"]
       unconfigured_llm_fails_locally
         [OF unconfigured_connector, of test_world OPENAI "u ''hello''" None "u ''hello''"]
  show ?thesis by (simp add: g o)
qed

text \<open>
  C7, as the spec states it, fails for \<open>summarize\<close>: without a credential it returns a
  string, for either provider, and no response object with a success flag.
\<close>

theorem summarize_returns_no_response:
  "fst (summarize test_world (create_llm_connector test_world GEMINI) (u ''hello''))
     = PStr (summarize_failed @ u ''API key not configured'')
   \<and> \<not> is_instance (u ''LLMResponse'')
         (fst (summarize test_world (create_llm_connector test_world GEMINI) (u ''hello'')))
   \<and> fst (summarize test_world (create_llm_connector test_world OPENAI) (u ''hello''))
     = PStr (summarize_failed @ u ''API key not configured'')
   \<and> \<not> is_instance (u ''LLMResponse'')
         (fst (summarize test_world (create_llm_connector test_world OPENAI) (u ''hello'')))"
  by (simp add: summarize_unconfigured [OF unconfigured_connector])

lemma summarize_cases:
  "fst (summarize w c text) =
     (let result = fst (generate w c (summarize_instruction @ text) None)
      in if llm_success result then llm_content result
         else PStr (summarize_failed @ py_format w (llm_error_message result)))"
  by (simp add: summarize_def Let_def split: prod.splits)

lemma summarize_failure_string:
  assumes "\<not> llm_success (fst (generate w c (summarize_instruction @ text) None))"
  shows "fst (summarize w c text) =
           PStr (summarize_failed
                 @ py_format w (llm_error_message
                     (fst (generate w c (summarize_instruction @ text) None))))
         \<and> summarize_failed
             @ py_format w (llm_error_message
                 (fst (generate w c (summarize_instruction @ text) None))) \<noteq> []"
  using assms by (simp add: summarize_cases summarize_failed_def)

text \<open>
  C10 says that \<open>summarize\<close> always returns a string. On a failed \<open>generate\<close> it does,
  the failure prefix followed by the error message (\<open>summarize_failure_string\<close>); on a
  successful one it returns the content of the reply as it is, and with an OpenAI reply
  whose message content is \<open>null\<close> that is \<open>None\<close>, no string.
\<close>

theorem summarize_returns_none:
  "fst (summarize null_content_world (create_llm_connector null_content_world OPENAI)
          (u ''hello'')) = PNone
   \<and> \<not> is_str PNone"
  by (simp add: summarize_null_content)

section \<open>The quick-reply builder\<close>

lemma quick_reply_items_length:
  "quick_reply_items opts = Inr items \<Longrightarrow>
     list_all2 (\<lambda>opt item. quick_reply_item opt = Inr item) opts items"
  by (induction opts arbitrary: items)
     (auto simp: exn_bind_def split: sum.splits)

lemma quick_reply_item_label:
  "(\<exists>item. quick_reply_item opt = Inr item) \<longleftrightarrow> map_of opt (u ''label'') \<noteq> None"
  by (auto simp: quick_reply_item_def exn_bind_def split: option.splits sum.splits)

lemma quick_reply_items_labels:
  "(\<exists>items. quick_reply_items opts = Inr items)
     \<longleftrightarrow> (\<forall>opt \<in> set opts. map_of opt (u ''label'') \<noteq> None)"
proof (induction opts)
  case Nil
  show ?case by simp
next
  case (Cons opt opts)
  show ?case
    using Cons quick_reply_item_label [of opt]
    by (auto simp: exn_bind_def split: sum.splits)
qed

lemma send_messages_requests:
  "requests (snd (send_messages w c messages uid)) =
     (case (channel_access_token c, py_or uid (user_id c)) of
        (Some token, Some target) \<Rightarrow>
          if token \<noteq> [] \<and> target \<noteq> []
          then [post_json PUSH_API_URL
                  [(u ''Authorization'', u ''Bearer '' @ token),
                   (u ''Content-Type'', u ''application/json'')]
                  (PDict [(u ''to'', PStr target), (u ''messages'', PList messages)])]
          else []
      | other \<Rightarrow> [])"
  by (auto simp: send_messages_def Let_def split: option.splits)

lemma yes_item: "quick_reply_item [(u ''label'', PStr (u ''Yes''))] = Inr yes_item"
  by (simp add: quick_reply_item_def exn_bind_def yes_item_def u_def)

lemma yes_items:
  "quick_reply_items (replicate n [(u ''label'', PStr (u ''Yes''))]) = Inr (replicate n yes_item)"
  by (induction n) (simp_all add: exn_bind_def yes_item)

lemma send_with_quick_reply_requests:
  "requests (snd (send_with_quick_reply w c message options uid)) =
     (case quick_reply_items (take 13 options) of
        Inl e \<Rightarrow> []
      | Inr items \<Rightarrow>
          requests (snd (send_messages w c
            [PDict [(u ''type'', PStr (u ''text'')), (u ''text'', PStr message),
                    (u ''quickReply'', PDict [(u ''items'', PList items)])]] uid)))"
  by (simp add: send_with_quick_reply_def Let_def split: sum.splits prod.splits)

lemma sent_items_post:
  "sent_items (post_json url headers
     (PDict [(u ''to'', PStr target),
             (u ''messages'',
              PList [PDict [(u ''type'', PStr (u ''text'')), (u ''text'', PStr message),
                            (u ''quickReply'', PDict [(u ''items'', PList items)])]])]))
     = Some items"
  by (simp add: sent_items_def post_json_def u_def)

text \<open>
  C6: \<open>send_with_quick_reply\<close> does with an options list what it does with its first 13
  options, so what lies beyond is dropped without effect; every request it sends carries one
  action item for each of the first 13 options and no more; and with a token, a recipient
  and a label on each of the first 13 options it sends exactly one request, with
  \<open>min 13 n\<close> items for \<open>n\<close> options, hence 13 items for 15 options.
\<close>

theorem quick_reply_cap:
  "send_with_quick_reply w c message options uid
     = send_with_quick_reply w c message (take 13 options) uid
   \<and> (\<forall>req \<in> set (requests (snd (send_with_quick_reply w c message options uid))).
        \<exists>items. sent_items req = Some items
          \<and> list_all2 (\<lambda>opt item. quick_reply_item opt = Inr item) (take 13 options) items
          \<and> length items = min 13 (length options))
   \<and> (\<forall>token target.
        channel_access_token c = Some token \<and> token \<noteq> []
        \<and> py_or uid (user_id c) = Some target \<and> target \<noteq> []
        \<and> (\<forall>opt \<in> set (take 13 options). map_of opt (u ''label'') \<noteq> None)
        \<longrightarrow> (\<exists>items.
              requests (snd (send_with_quick_reply w c message options uid)) =
                [post_json PUSH_API_URL
                   [(u ''Authorization'', u ''Bearer '' @ token),
                    (u ''Content-Type'', u ''application/json'')]
                   (PDict [(u ''to'', PStr target),
                           (u ''messages'',
                            PList [PDict [(u ''type'', PStr (u ''text'')),
                                          (u ''text'', PStr message),
                                          (u ''quickReply'',
                                           PDict [(u ''items'', PList items)])]])])]
              \<and> list_all2 (\<lambda>opt item. quick_reply_item opt = Inr item) (take 13 options) items
              \<and> length items = min 13 (length options)))"
proof (intro conjI allI impI ballI)
  show "send_with_quick_reply w c message options uid
          = send_with_quick_reply w c message (take 13 options) uid"
    by (simp add: send_with_quick_reply_def)
next
  fix req
  assume r: "req \<in> set (requests (snd (send_with_quick_reply w c message options uid)))"
  then obtain items where i: "quick_reply_items (take 13 options) = Inr items"
    by (cases "quick_reply_items (take 13 options)")
       (auto simp: send_with_quick_reply_requests)
  from quick_reply_items_length [OF i]
  have l: "list_all2 (\<lambda>opt item. quick_reply_item opt = Inr item) (take 13 options) items" .
  then have n: "length items = min 13 (length options)"
    by (auto dest: list_all2_lengthD)
  from r i have "sent_items req = Some items"
    by (auto simp: send_with_quick_reply_requests send_messages_requests sent_items_post
          split: option.splits if_splits)
  with l n show "\<exists>items. sent_items req = Some items
          \<and> list_all2 (\<lambda>opt item. quick_reply_item opt = Inr item) (take 13 options) items
          \<and> length items = min 13 (length options)"
    by blast
next
  fix token target
  assume a: "channel_access_token c = Some token \<and> token \<noteq> []
        \<and> py_or uid (user_id c) = Some target \<and> target \<noteq> []
        \<and> (\<forall>opt \<in> set (take 13 options). map_of opt (u ''label'') \<noteq> None)"
  then obtain items where i: "quick_reply_items (take 13 options) = Inr items"
    using quick_reply_items_labels [of "take 13 options"] by blast
  from quick_reply_items_length [OF i]
  have l: "list_all2 (\<lambda>opt item. quick_reply_item opt = Inr item) (take 13 options) items" .
  then have n: "length items = min 13 (length options)"
    by (auto dest: list_all2_lengthD)
  from a i have "requests (snd (send_with_quick_reply w c message options uid)) =
                [post_json PUSH_API_URL
                   [(u ''Authorization'', u ''Bearer '' @ token),
                    (u ''Content-Type'', u ''application/json'')]
                   (PDict [(u ''to'', PStr target),
                           (u ''messages'',
                            PList [PDict [(u ''type'', PStr (u ''text'')),
                                          (u ''text'', PStr message),
                                          (u ''quickReply'',
                                           PDict [(u ''items'', PList items)])]])])]"
    by (simp add: send_with_quick_reply_requests send_messages_requests)
  with l n show "\<exists>items.
              requests (snd (send_with_quick_reply w c message options uid)) =
                [post_json PUSH_API_URL
                   [(u ''Authorization'', u ''Bearer '' @ token),
                    (u ''Content-Type'', u ''application/json'')]
                   (PDict [(u ''to'', PStr target),
                           (u ''messages'',
                            PList [PDict [(u ''type'', PStr (u ''text'')),
                                          (u ''text'', PStr message),
                                          (u ''quickReply'',
                                           PDict [(u ''items'', PList items)])]])])]
              \<and> list_all2 (\<lambda>opt item. quick_reply_item opt = Inr item) (take 13 options) items
              \<and> length items = min 13 (length options)"
    by blast
qed

theorem quick_reply_cap_witness:
  "length fifteen_options = 15
   \<and> map sent_items
       (requests (snd (send_with_quick_reply line_world line_connector (u ''Pick'')
                         fifteen_options None)))
     = [Some (replicate 13 yes_item)]
   \<and> length (replicate 13 yes_item) = 13"
proof -
  have ne: "u ''token'' \<noteq> [] \<and> u ''U1'' \<noteq> []" by (simp add: u_def)
  have "length fifteen_options = 15
   \<and> map sent_items
       (requests (snd (send_with_quick_reply line_world line_connector (u ''Pick'')
                         fifteen_options None)))
     = [Some (replicate 13 yes_item)]
   \<and> length (replicate 13 yes_item) = 13"
    by (simp add: send_with_quick_reply_requests send_messages_requests sent_items_post
        fifteen_options_def yes_items line_connector_def py_or_def ne)
  with quick_reply_cap [of line_world line_connector "u ''Pick''" fifteen_options None]
  show ?thesis by blast
qed

section \<open>The analyzer\<close>

lemma counter_add_keys: "fst ` set (counter_add x kvs) = insert x (fst ` set kvs)"
  by (induction x kvs rule: counter_add.induct) auto

lemma fold_counter_add_keys:
  "fst ` set (fold counter_add ws acc) = set ws \<union> fst ` set acc"
  by (induction ws arbitrary: acc) (auto simp: counter_add_keys)

lemma Counter_keys: "fst ` set (Counter ws) = set ws"
  by (simp add: Counter_def fold_counter_add_keys)

lemma most_common_subset: "set (most_common items n) \<subseteq> set items"
  using set_take_subset [of "nat n" "sort_key (\<lambda>kv. - int (snd kv)) items"]
  by (simp add: most_common_def)

lemma most_common_length: "length (most_common items n) \<le> nat n"
  by (simp add: most_common_def)

lemma tokenize_member:
  assumes "t \<in> set (tokenize w a text)"
  shows "t \<notin> STOP_WORDS \<and> (\<exists>x. t = str_lower w x \<and> min_word_length a \<le> int (length x))"
  using assms by (auto simp: tokenize_def Let_def)

lemma keywords_are_tokens:
  assumes "kv \<in> set (ar_keywords (analyze w a text))"
  shows "fst kv \<in> set (tokenize w a text)"
proof -
  from assms have "kv \<in> set (Counter (tokenize w a text))"
    using most_common_subset by (auto simp: analyze_def Let_def)
  then have "fst kv \<in> fst ` set (Counter (tokenize w a text))" by (rule imageI)
  then show ?thesis by (simp add: Counter_keys)
qed

text \<open>
  C8: for every text, \<open>analyze\<close> returns at most \<open>top_n\<close> keywords (none for a
  \<open>top_n\<close> below zero); no keyword is a stop-word; every keyword is the lower-cased form
  of a token at least \<open>min_word_length\<close> long, and so is itself at least that long, since
  lower-casing never shortens a string (\<open>str.lower\<close> maps every code point to one code
  point, but for U+0130, which it maps to two).
\<close>

theorem analyze_keywords_bounded:
  "length (ar_keywords (analyze w a text)) \<le> nat (top_n a)
   \<and> (\<forall>kv \<in> set (ar_keywords (analyze w a text)).
        fst kv \<notin> STOP_WORDS
        \<and> (\<exists>x. fst kv = str_lower w x \<and> min_word_length a \<le> int (length x))
        \<and> ((\<forall>x. length x \<le> length (str_lower w x))
             \<longrightarrow> min_word_length a \<le> int (length (fst kv))))"
proof (intro conjI ballI)
  show "length (ar_keywords (analyze w a text)) \<le> nat (top_n a)"
    by (simp add: analyze_def Let_def most_common_length)
next
  fix kv
  assume "kv \<in> set (ar_keywords (analyze w a text))"
  then have t: "fst kv \<in> set (tokenize w a text)" by (rule keywords_are_tokens)
  from tokenize_member [OF t] show "fst kv \<notin> STOP_WORDS" by simp
  from tokenize_member [OF t]
  show x: "\<exists>x. fst kv = str_lower w x \<and> min_word_length a \<le> int (length x)" by simp
  show "(\<forall>x. length x \<le> length (str_lower w x))
          \<longrightarrow> min_word_length a \<le> int (length (fst kv))"
  proof
    assume l: "\<forall>x. length x \<le> length (str_lower w x)"
    from x obtain y where y: "fst kv = str_lower w y" "min_word_length a \<le> int (length y)"
      by blast
    from l have "int (length y) \<le> int (length (str_lower w y))" by simp
    with y show "min_word_length a \<le> int (length (fst kv))" by simp
  qed
qed

lemma entities_formula:
  "top_entities (analyze w a text) = take 10 (set_iter w (pooled_entities text))"
  by (simp add: analyze_def Let_def extract_entities_def)

text \<open>
  C2, amended: the entities pooled from the three patterns are deduplicated through a
  \<open>set\<close>, and \<open>top_entities\<close> is the first 10 elements of the list made of that set,
  in the set's iteration order. As a set iterates over each of its elements once, the
  result has no duplicates, holds only pooled entities, and is as long as the pool has
  distinct entities, up to 10; no order is promised.
\<close>

theorem entities_deduplicated_by_set:
  "top_entities (analyze w a text) = take 10 (set_iter w (pooled_entities text))
   \<and> (distinct (set_iter w (pooled_entities text))
        \<and> set (set_iter w (pooled_entities text)) = set (pooled_entities text)
      \<longrightarrow> distinct (top_entities (analyze w a text))
          \<and> set (top_entities (analyze w a text)) \<subseteq> set (pooled_entities text)
          \<and> length (top_entities (analyze w a text))
              = min 10 (card (set (pooled_entities text))))"
proof (intro conjI impI)
  show "top_entities (analyze w a text) = take 10 (set_iter w (pooled_entities text))"
    by (rule entities_formula)
next
  assume v: "distinct (set_iter w (pooled_entities text))
        \<and> set (set_iter w (pooled_entities text)) = set (pooled_entities text)"
  then show "distinct (top_entities (analyze w a text))"
    by (simp add: entities_formula)
  from v set_take_subset [of 10 "set_iter w (pooled_entities text)"]
  show "set (top_entities (analyze w a text)) \<subseteq> set (pooled_entities text)"
    by (simp add: entities_formula)
  from v have "length (set_iter w (pooled_entities text)) = card (set (pooled_entities text))"
    using distinct_card [of "set_iter w (pooled_entities text)"] by simp
  then show "length (top_entities (analyze w a text))
              = min 10 (card (set (pooled_entities text)))"
    by (simp add: entities_formula min.commute)
qed

lemma sample_names:
  "findall name_match sample_body = [u ''Alpha Beta'', u ''Gamma Delta'']"
  by (simp add: sample_body_def findall_def name_match_def cap_word_def name_part_def
      is_upper_def is_lower_def is_space_def u_def)

lemma sample_companies: "findall (cjk_suffix_match 2 4 company_suffixes) sample_body = []"
  by (simp add: sample_body_def findall_def cjk_suffix_match_def is_cjk_def u_def)

lemma sample_persons: "findall (cjk_suffix_match 2 3 person_suffixes) sample_body = []"
  by (simp add: sample_body_def findall_def cjk_suffix_match_def is_cjk_def u_def)

lemma sample_pooled: "pooled_entities sample_body = [u ''Alpha Beta'', u ''Gamma Delta'']"
  by (simp add: pooled_entities_def patterns_def sample_names sample_companies sample_persons)

lemma sample_entities:
  "top_entities (analyze test_world default_analyzer sample_body)
     = [u ''Gamma Delta'', u ''Alpha Beta'']"
  by (simp add: entities_formula sample_pooled test_world_def) (simp add: u_def)

text \<open>
  C2, as the spec states it, fails: where the set iterates from the last element inserted
  to the first, the two names of the sample body come back in the reverse of the order of
  their first occurrences.
\<close>

theorem entities_not_in_first_occurrence_order:
  "top_entities (analyze test_world default_analyzer sample_body)
     = [u ''Gamma Delta'', u ''Alpha Beta'']
   \<and> take 10 (spec_stable_dedupe (pooled_entities sample_body))
     = [u ''Alpha Beta'', u ''Gamma Delta'']
   \<and> [u ''Gamma Delta'', u ''Alpha Beta''] \<noteq> [u ''Alpha Beta'', u ''Gamma Delta'']"
  by (simp add: sample_entities sample_pooled) (simp add: u_def)

theorem entities_deduplicated_by_set_witness:
  "top_entities (analyze test_world default_analyzer sample_body)
     = [u ''Gamma Delta'', u ''Alpha Beta'']
   \<and> distinct [u ''Gamma Delta'', u ''Alpha Beta'']
   \<and> card (set (pooled_entities sample_body)) = 2"
proof -
  have i: "set_iter test_world (pooled_entities sample_body)
             = [u ''Gamma Delta'', u ''Alpha Beta'']"
    by (simp add: sample_pooled test_world_def) (simp add: u_def)
  have d: "distinct [u ''Gamma Delta'', u ''Alpha Beta'']" by (simp add: u_def)
  have s: "set [u ''Gamma Delta'', u ''Alpha Beta''] = set (pooled_entities sample_body)"
    by (auto simp: sample_pooled)
  have c: "card (set (pooled_entities sample_body)) = 2"
    using distinct_card [OF d] s by simp
  from entities_deduplicated_by_set [of test_world default_analyzer sample_body] i d s c
  show ?thesis by simp
qed

lemma chip_words:
  "findall (word_match test_world) chip_text
     = [u ''the'', u ''Chip'', u ''chip'', u ''a'', u ''fair'']"
  by (simp add: chip_text_def findall_def word_match_def test_world_def is_cjk_def
      is_upper_def is_lower_def Let_def u_def)

lemma chip_lower:
  "str_lower test_world (u ''the'') = u ''the''"
  "str_lower test_world (u ''Chip'') = u ''chip''"
  "str_lower test_world (u ''chip'') = u ''chip''"
  "str_lower test_world (u ''a'') = u ''a''"
  "str_lower test_world (u ''fair'') = u ''fair''"
  by (simp_all add: test_world_def ascii_lower_def is_upper_def u_def)

lemma chip_stop:
  "u ''the'' \<in> STOP_WORDS" "u ''chip'' \<notin> STOP_WORDS" "u ''fair'' \<notin> STOP_WORDS"
  by (simp_all add: STOP_WORDS_def u_def)

lemma chip_tokens:
  "tokenize test_world \<lparr>top_n = 1, min_word_length = 2\<rparr> chip_text
     = [u ''chip'', u ''chip'', u ''fair'']"
proof -
  have j: "jieba_cut test_world = None" by (simp add: test_world_def)
  have n: "length (u ''the'') = 3" "length (u ''Chip'') = 4" "length (u ''chip'') = 4"
    "length (u ''a'') = 1" "length (u ''fair'') = 4"
    by (simp_all add: u_def)
  show ?thesis
    by (simp add: tokenize_def j chip_words chip_lower chip_stop n)
qed

lemma chip_keywords:
  "ar_keywords (analyze test_world \<lparr>top_n = 1, min_word_length = 2\<rparr> chip_text)
     = [(u ''chip'', 2)]"
proof -
  have ne: "u ''chip'' \<noteq> u ''fair''" by (simp add: u_def)
  show ?thesis
    using ne by (simp add: analyze_def Let_def chip_tokens Counter_def most_common_def)
qed

theorem analyze_keywords_bounded_witness:
  "ar_keywords (analyze test_world \<lparr>top_n = 1, min_word_length = 2\<rparr> chip_text)
     = [(u ''chip'', 2)]
   \<and> u ''chip'' \<notin> STOP_WORDS
   \<and> (2::int) \<le> int (length (u ''chip''))"
proof -
  have l: "\<forall>x. length x \<le> length (str_lower test_world x)"
    by (simp add: test_world_def ascii_lower_def)
  from analyze_keywords_bounded
         [of test_world "\<lparr>top_n = 1, min_word_length = 2\<rparr>" chip_text] l
  show ?thesis by (simp add: chip_keywords)
qed

end
